theory Spec2Isabelle
  imports Complex_Main
begin

section \<open>JavaScript numbers and arrays\<close>

text \<open>
  The engine is TypeScript; a \<open>number\<close> is modelled as an exact real wherever the
  program keeps it finite, and as a \<open>jsnum\<close> (a real, an infinity or \<open>NaN\<close>) where it
  does not: the budget utilisation of the goal allocator and the portfolio of a Monte
  Carlo path whose generator draws an infinity. Rounding of IEEE doubles is modelled in
  the one place where the program depends on it, the state of the random number
  generator; overflow of finite arithmetic is outside the model. A thrown exception is
  the left summand of a sum type.

  Division by zero does not throw in JavaScript, and in HOL \<open>x / 0 = 0\<close>, so every
  division of the source is accounted for:
  \<^item> the rebalancer divides by the total value after returning early when it is 0;
  \<^item> \<open>mean\<close> divides by the length after returning 0 on the empty vector, and
    \<open>percentile\<close> by the constant 100;
  \<^item> the annuity formulas divide by the rate after a branch for rate 0, and
    \<open>requiredSIP\<close> by an annuity factor that is positive at the allocator's rate
    of 0.10/12;
  \<^item> the allocator divides the remaining budget by a required SIP that exceeds it, and
    the granted amount by the caller's budget, which may be 0: that quotient is a
    \<open>jsnum\<close> (below), with the infinities and \<open>NaN\<close> written out;
  \<^item> the aggregation divides by the number of paths, and throws before returning when
    there is none;
  \<^item> the yearly record divides a withdrawal by \<open>portfolio + withdrawal\<close>, which is 0
    only under a positive end-of-year portfolio and a negative withdrawal of the same
    size, and the investment return by \<open>(1 + inflation) ^ year\<close>, which is 0 only at
    an inflation mean of -100%; the summary divides by \<open>1 + inflation\<close>, by the real
    return (guarded) and by the corpus needed (a branch of its own below). On those
    inputs the quotient fields of the program are infinite or \<open>NaN\<close> and the model's
    are not the program's; which records exist, their portfolio values and cashflows,
    and which exception is raised are not affected.
\<close>

datatype error =
    ValidationError string string   \<comment> \<open>\<open>new ValidationError(field, message)\<close>\<close>
  | Error string                    \<comment> \<open>\<open>new Error(message)\<close>\<close>
  | TypeError                       \<comment> \<open>property read on \<open>undefined\<close>\<close>

text \<open>
  Numbers that may leave the reals. Dividing by zero does not throw in JavaScript: the
  quotient is an infinity, or \<open>NaN\<close> for \<open>0 / 0\<close>. \<open>js_times\<close> multiplies by a finite
  number, \<open>js_mult\<close> and \<open>js_plus\<close> are \<open>*\<close> and \<open>+\<close>, \<open>js_negative x\<close> is \<open>x < 0\<close>: a
  comparison with \<open>NaN\<close> is false.
\<close>

datatype jsnum = Finite real | PosInfinity | NegInfinity | NaN

definition js_divide :: "real \<Rightarrow> real \<Rightarrow> jsnum" where
  "js_divide a b =
     (if b \<noteq> 0 then Finite (a / b)
      else if a > 0 then PosInfinity
      else if a < 0 then NegInfinity
      else NaN)"

fun js_times :: "jsnum \<Rightarrow> real \<Rightarrow> jsnum" where
  "js_times (Finite a) c = Finite (a * c)"
| "js_times PosInfinity c = (if c > 0 then PosInfinity else if c < 0 then NegInfinity else NaN)"
| "js_times NegInfinity c = (if c > 0 then NegInfinity else if c < 0 then PosInfinity else NaN)"
| "js_times NaN c = NaN"

fun js_mult :: "jsnum \<Rightarrow> jsnum \<Rightarrow> jsnum" where
  "js_mult x (Finite b) = js_times x b"
| "js_mult (Finite a) y = js_times y a"
| "js_mult NaN y = NaN"
| "js_mult x NaN = NaN"
| "js_mult PosInfinity PosInfinity = PosInfinity"
| "js_mult PosInfinity NegInfinity = NegInfinity"
| "js_mult NegInfinity PosInfinity = NegInfinity"
| "js_mult NegInfinity NegInfinity = PosInfinity"

fun js_plus :: "jsnum \<Rightarrow> jsnum \<Rightarrow> jsnum" where
  "js_plus (Finite a) (Finite b) = Finite (a + b)"
| "js_plus NaN y = NaN"
| "js_plus x NaN = NaN"
| "js_plus PosInfinity NegInfinity = NaN"
| "js_plus NegInfinity PosInfinity = NaN"
| "js_plus PosInfinity y = PosInfinity"
| "js_plus x PosInfinity = PosInfinity"
| "js_plus NegInfinity y = NegInfinity"
| "js_plus x NegInfinity = NegInfinity"

fun js_negative :: "jsnum \<Rightarrow> bool" where
  "js_negative (Finite a) = (a < 0)"
| "js_negative NegInfinity = True"
| "js_negative PosInfinity = False"
| "js_negative NaN = False"

definition js_minus :: "jsnum \<Rightarrow> jsnum \<Rightarrow> jsnum" where
  "js_minus a b = js_plus a (js_times b (- 1))"

text \<open>
  \<open>isFinite\<close>, and the real a finite number is (0 for the others, which no statement
  below reads).
\<close>

fun isFinite :: "jsnum \<Rightarrow> bool" where
  "isFinite (Finite a) = True"
| "isFinite PosInfinity = False"
| "isFinite NegInfinity = False"
| "isFinite NaN = False"

fun realOf :: "jsnum \<Rightarrow> real" where
  "realOf (Finite a) = a"
| "realOf PosInfinity = 0"
| "realOf NegInfinity = 0"
| "realOf NaN = 0"

text \<open>
  What \<open>Array.prototype.sort\<close> reads of a comparator's result: its sign, with \<open>NaN\<close>
  counted as 0.
\<close>

fun js_sign :: "jsnum \<Rightarrow> real" where
  "js_sign (Finite a) = a"
| "js_sign PosInfinity = 1"
| "js_sign NegInfinity = - 1"
| "js_sign NaN = 0"

text \<open>\<open>Array.prototype.sort(cmp)\<close> is stable; \<open>cmp a b \<le> 0\<close> keeps \<open>a\<close> before \<open>b\<close>.\<close>

fun insertBy :: "('a \<Rightarrow> 'a \<Rightarrow> real) \<Rightarrow> 'a \<Rightarrow> 'a list \<Rightarrow> 'a list" where
  "insertBy cmp x [] = [x]"
| "insertBy cmp x (y # ys) = (if cmp x y \<le> 0 then x # y # ys else y # insertBy cmp x ys)"

definition sortBy :: "('a \<Rightarrow> 'a \<Rightarrow> real) \<Rightarrow> 'a list \<Rightarrow> 'a list" where
  "sortBy cmp xs = foldr (insertBy cmp) xs []"

text \<open>
  \<open>a || d\<close> on an optional number: \<open>undefined\<close> and \<open>0\<close> are both falsy and give \<open>d\<close>.
\<close>

definition orDefault :: "real option \<Rightarrow> real \<Rightarrow> real" where
  "orDefault v d = (case v of None \<Rightarrow> d | Some x \<Rightarrow> if x = 0 then d else x)"

text \<open>\<open>Math.round\<close>: nearest integer, halves upwards.\<close>

definition Math_round :: "real \<Rightarrow> real" where
  "Math_round x = of_int \<lfloor>x + 1 / 2\<rfloor>"

text \<open>
  \<open>Math.pow\<close>. The engine raises to loop counters, to differences of rounded ages and to
  year counts; an integer-valued exponent is an integer power, any other exponent the
  real power of a positive base.
\<close>

definition Math_pow :: "real \<Rightarrow> real \<Rightarrow> real" where
  "Math_pow x y = (if of_int \<lfloor>y\<rfloor> = y then x powi \<lfloor>y\<rfloor> else x powr y)"

section \<open>Market assumptions (assumptions/types.ts, assumptions/india-2024.ts)\<close>

text \<open>
  Of a bundle the engine reads the per-asset nominal return distribution and trading cost
  and the inflation mean; the other fields (version, correlation matrix, regimes) are
  never read by the functions below and are left out.
\<close>

record AssetClassParams =
  nominalReturn_mean :: real
  nominalReturn_volatility :: real
  tradingCost :: real

record MarketAssumptions =
  assetClasses :: "string \<rightharpoonup> AssetClassParams"
  inflation_mean :: real

definition INDIA_2024_Q4 :: MarketAssumptions where
  "INDIA_2024_Q4 = \<lparr>
     assetClasses = map_of
       [(''equity-nifty50'',
           \<lparr>nominalReturn_mean = 12, nominalReturn_volatility = 18, tradingCost = 10\<rparr>),
        (''debt-govt-10y'',
           \<lparr>nominalReturn_mean = 72 / 10, nominalReturn_volatility = 45 / 10, tradingCost = 5\<rparr>),
        (''gold'',
           \<lparr>nominalReturn_mean = 8, nominalReturn_volatility = 15, tradingCost = 50\<rparr>),
        (''cash'',
           \<lparr>nominalReturn_mean = 4, nominalReturn_volatility = 5 / 10, tradingCost = 0\<rparr>)],
     inflation_mean = 6 \<rparr>"

section \<open>Time value of money (math/compound.ts)\<close>

definition presentValueAnnuity :: "real \<Rightarrow> real \<Rightarrow> real \<Rightarrow> error + real" where
  "presentValueAnnuity payment rate periods =
     (if payment < 0 then Inl (Error ''Payment must be non-negative'')
      else if periods < 0 then Inl (Error ''Periods must be non-negative'')
      else if rate = 0 then Inr (payment * periods)
      else Inr (payment * ((1 - Math_pow (1 + rate) (- periods)) / rate)))"

definition nominalToReal :: "real \<Rightarrow> real \<Rightarrow> real" where
  "nominalToReal nominalRate inflationRate = ((1 + nominalRate) / (1 + inflationRate)) - 1"

datatype PeriodType = monthly | annual

definition requiredSIP :: "real \<Rightarrow> real \<Rightarrow> real \<Rightarrow> PeriodType \<Rightarrow> error + real" where
  "requiredSIP targetAmount annualRate years type =
     (if targetAmount \<le> 0 then Inl (Error ''Target amount must be positive'')
      else if years \<le> 0 then Inl (Error ''Years must be positive'')
      else let periods = (if type = monthly then years * 12 else years);
               rate = (if type = monthly then annualRate / 12 else annualRate)
           in if rate = 0 then Inr (targetAmount / periods)
              else Inr (targetAmount / (((Math_pow (1 + rate) periods - 1) / rate) * (1 + rate))))"

datatype AnnuityType = due | ordinary

definition futureValueAnnuity :: "real \<Rightarrow> real \<Rightarrow> real \<Rightarrow> AnnuityType \<Rightarrow> error + real" where
  "futureValueAnnuity payment rate periods type =
     (if payment < 0 then Inl (Error ''Payment must be non-negative'')
      else if periods < 0 then Inl (Error ''Periods must be non-negative'')
      else if rate = 0 then Inr (payment * periods)
      else let fv = payment * ((Math_pow (1 + rate) periods - 1) / rate)
           in Inr (if type = due then fv * (1 + rate) else fv))"

section \<open>Projection inputs and validation (projection/types.ts, projection/validation.ts)\<close>

record FutureExpense =
  fe_year :: real
  fe_amount :: real
  fe_label :: string

record ProjectionInputs =
  currentAge :: real
  retirementAge :: real
  lifeExpectancy :: real
  currentSavings :: real
  monthlyInvestment :: real
  investmentGrowthRate :: "real option"
  monthlyExpenses :: real
  expenseGrowthRate :: "real option"
  assetAllocation :: "(string \<times> real) list"
  futureExpenses :: "FutureExpense list option"

record YearlyProjection =
  year :: nat
  age :: real
  portfolioValue :: real
  income :: real
  expenses :: real
  netCashflow :: real
  contributions :: real
  withdrawals :: real
  investmentReturn :: real
  realReturn :: real
  savingsRate :: "real option"
  withdrawalRate :: "real option"

datatype SuccessMetric = Surplus | OnTrack | Shortfall | Depletion

record ProjectionSummary =
  retirementCorpusNeeded :: real
  projectedCorpusAtRetirement :: real
  finalPortfolioValue :: real
  depletionAge :: "real option"
  successMetric :: SuccessMetric

record ProjectionResult =
  timeline :: "YearlyProjection list"
  summary :: ProjectionSummary

text \<open>
  \<open>validateInputs\<close> throws at the first failing check, in the order of the source. The
  messages that interpolate a number keep their fixed part.
\<close>

definition validateInputs :: "ProjectionInputs \<Rightarrow> error + unit" where
  "validateInputs inputs =
     (if currentAge inputs < 18 \<or> currentAge inputs > 100
        then Inl (ValidationError ''currentAge'' ''Must be between 18 and 100'')
      else if retirementAge inputs \<le> currentAge inputs
        then Inl (ValidationError ''retirementAge'' ''Must be greater than current age'')
      else if lifeExpectancy inputs \<le> retirementAge inputs
        then Inl (ValidationError ''lifeExpectancy'' ''Must be greater than retirement age'')
      else if currentSavings inputs < 0
        then Inl (ValidationError ''currentSavings'' ''Cannot be negative'')
      else if monthlyInvestment inputs < 0
        then Inl (ValidationError ''monthlyInvestment'' ''Cannot be negative'')
      else if monthlyExpenses inputs < 0
        then Inl (ValidationError ''monthlyExpenses'' ''Cannot be negative'')
      else if \<bar>sum_list (map snd (assetAllocation inputs)) - 100\<bar> > 1 / 100
        then Inl (ValidationError ''assetAllocation'' ''Must sum to 100%'')
      else if list_ex (\<lambda>(asset, pct). pct < 0 \<or> pct > 100) (assetAllocation inputs)
        then Inl (ValidationError ''assetAllocation'' ''must be 0-100%'')
      else Inr ())"

definition sanitizeInputs :: "ProjectionInputs \<Rightarrow> ProjectionInputs" where
  "sanitizeInputs inputs = inputs\<lparr>
     currentAge := Math_round (currentAge inputs),
     retirementAge := Math_round (retirementAge inputs),
     lifeExpectancy := Math_round (lifeExpectancy inputs),
     currentSavings := max 0 (currentSavings inputs),
     monthlyInvestment := max 0 (monthlyInvestment inputs),
     monthlyExpenses := max 0 (monthlyExpenses inputs)\<rparr>"

section \<open>Deterministic projection (projection/deterministic.ts)\<close>

fun calculatePortfolioReturn_loop ::
  "(string \<times> real) list \<Rightarrow> MarketAssumptions \<Rightarrow> real \<Rightarrow> error + real" where
  "calculatePortfolioReturn_loop [] assumptions weightedReturn = Inr weightedReturn"
| "calculatePortfolioReturn_loop ((assetId, weight) # rest) assumptions weightedReturn =
     (case assetClasses assumptions assetId of
        None \<Rightarrow> Inl (Error ''Unknown asset'')
      | Some assetParams \<Rightarrow>
          calculatePortfolioReturn_loop rest assumptions
            (weightedReturn + (weight / 100) * (nominalReturn_mean assetParams / 100)))"

definition calculatePortfolioReturn ::
  "(string \<times> real) list \<Rightarrow> MarketAssumptions \<Rightarrow> error + real" where
  "calculatePortfolioReturn allocation assumptions =
     calculatePortfolioReturn_loop allocation assumptions 0"

text \<open>
  One pass of the year loop. \<open>projectDeterministic\<close> and \<open>runSingleSimulation\<close> carry the
  same loop body; they differ in the year's rate of return only (the fixed expected
  return against the sampled one), which is the argument \<open>rate\<close>. The Monte Carlo
  record has no \<open>savingsRate\<close> field, the deterministic one sets it to \<open>undefined\<close>:
  both are \<open>None\<close>.
\<close>

definition projectYear ::
  "ProjectionInputs \<Rightarrow> real \<Rightarrow> real \<Rightarrow> real \<Rightarrow> real \<Rightarrow> nat \<Rightarrow> real \<Rightarrow> YearlyProjection" where
  "projectYear inputs inflationRate investmentGrowth expenseGrowth rate yr portfolio =
     (let age = currentAge inputs + real yr;
          isRetired = (age \<ge> retirementAge inputs);
          annualExpenses = monthlyExpenses inputs * 12 * (1 + expenseGrowth) ^ yr;
          futureExpense =
            (case futureExpenses inputs of
               None \<Rightarrow> 0
             | Some es \<Rightarrow>
                 sum_list (map (\<lambda>e. fe_amount e * (1 + inflationRate) ^ yr)
                               (filter (\<lambda>e. fe_year e = real yr) es)));
          totalExpenses = annualExpenses + futureExpense;
          annualContribution =
            (if isRetired then 0
             else monthlyInvestment inputs * 12 * (1 + investmentGrowth) ^ yr);
          withdrawal = (if isRetired then totalExpenses else 0);
          investmentReturn = portfolio * rate;
          netCashflow = annualContribution - withdrawal;
          portfolio1 = portfolio + investmentReturn + netCashflow;
          portfolio2 = (if portfolio1 < 0 then 0 else portfolio1);
          realReturn = investmentReturn / (1 + inflationRate) ^ yr
      in \<lparr> year = yr,
           age = age,
           portfolioValue = portfolio2,
           income = 0,
           expenses = totalExpenses,
           netCashflow = netCashflow,
           contributions = annualContribution,
           withdrawals = withdrawal,
           investmentReturn = investmentReturn,
           realReturn = realReturn,
           savingsRate = None,
           withdrawalRate =
             (if portfolio2 > 0 then Some (withdrawal / (portfolio2 + withdrawal)) else None) \<rparr>)"

function projectTimeline ::
  "ProjectionInputs \<Rightarrow> real \<Rightarrow> real \<Rightarrow> real \<Rightarrow> real \<Rightarrow> nat \<Rightarrow> real \<Rightarrow> YearlyProjection list" where
  "projectTimeline inputs inflationRate investmentGrowth expenseGrowth rate yr portfolio =
     (if real yr < lifeExpectancy inputs - currentAge inputs
      then (let entry = projectYear inputs inflationRate investmentGrowth expenseGrowth
                          rate yr portfolio
            in if portfolioValue entry = 0 \<and> age entry \<ge> retirementAge inputs
               then [entry]
               else entry # projectTimeline inputs inflationRate investmentGrowth expenseGrowth
                              rate (Suc yr) (portfolioValue entry))
      else [])"
  by pat_completeness auto
termination
  by (relation "measure (\<lambda>(inputs, inflationRate, investmentGrowth, expenseGrowth, rate, yr, portfolio).
        nat \<lceil>lifeExpectancy inputs - currentAge inputs\<rceil> - yr)")
     (auto, linarith+)

declare projectTimeline.simps [simp del]

text \<open>
  A zero corpus needed (no expenses) makes \<open>gap / corpusNeeded\<close> either \<open>NaN\<close> or
  \<open>Infinity\<close>, neither below 0.1, which is the guard \<open>corpusNeeded \<noteq> 0\<close> below.
\<close>

definition projectDeterministic ::
  "ProjectionInputs \<Rightarrow> MarketAssumptions \<Rightarrow> error + ProjectionResult" where
  "projectDeterministic rawInputs assumptions =
     (let inputs = sanitizeInputs rawInputs in
      case validateInputs inputs of
        Inl e \<Rightarrow> Inl e
      | Inr _ \<Rightarrow>
         (let inflationRate = inflation_mean assumptions / 100;
              investmentGrowth = orDefault (investmentGrowthRate inputs) (inflationRate + 1 / 100);
              expenseGrowth = orDefault (expenseGrowthRate inputs) inflationRate
          in case calculatePortfolioReturn (assetAllocation inputs) assumptions of
               Inl e \<Rightarrow> Inl e
             | Inr portfolioExpectedReturn \<Rightarrow>
                (let tline = projectTimeline inputs inflationRate investmentGrowth expenseGrowth
                            portfolioExpectedReturn 0 (currentSavings inputs);
                     corpusAtRetirement =
                       (case find (\<lambda>y. age y = retirementAge inputs) tline of
                          None \<Rightarrow> 0 | Some y \<Rightarrow> portfolioValue y);
                     retirementYears = lifeExpectancy inputs - retirementAge inputs;
                     retirementExpenses = monthlyExpenses inputs * 12 *
                       Math_pow (1 + inflationRate) (retirementAge inputs - currentAge inputs);
                     realReturn = nominalToReal portfolioExpectedReturn inflationRate
                 in case presentValueAnnuity retirementExpenses realReturn retirementYears of
                      Inl e \<Rightarrow> Inl e
                    | Inr corpusNeeded \<Rightarrow>
                       (let gap = corpusNeeded - corpusAtRetirement;
                            finalValue = (if tline = [] then 0 else portfolioValue (last tline));
                            depletedYear =
                              find (\<lambda>y. portfolioValue y = 0 \<and> age y \<ge> retirementAge inputs) tline
                        in Inr \<lparr> timeline = tline,
                                 summary = \<lparr>
                                   retirementCorpusNeeded = corpusNeeded,
                                   projectedCorpusAtRetirement = corpusAtRetirement,
                                   finalPortfolioValue = finalValue,
                                   depletionAge = map_option age depletedYear,
                                   successMetric =
                                     (if depletedYear \<noteq> None then Depletion
                                      else if gap < 0 then Surplus
                                      else if corpusNeeded \<noteq> 0 \<and> gap / corpusNeeded < 1 / 10
                                        then OnTrack
                                      else Shortfall) \<rparr> \<rparr>))))"

section \<open>Statistics (math/statistics.ts)\<close>

definition mean :: "real list \<Rightarrow> real" where
  "mean values = (if length values = 0 then 0 else sum_list values / real (length values))"

definition median :: "real list \<Rightarrow> real" where
  "median values =
     (if length values = 0 then 0
      else let sorted = sortBy (\<lambda>a b. a - b) values;
               mid = length sorted div 2
           in if length sorted mod 2 = 0
              then (sorted ! (mid - 1) + sorted ! mid) / 2
              else sorted ! mid)"

definition standardDeviation :: "real list \<Rightarrow> real" where
  "standardDeviation values =
     (if length values = 0 then 0
      else let avg = mean values;
               squaredDiffs = map (\<lambda>v. (v - avg) ^ 2) values;
               variance = mean squaredDiffs
           in sqrt variance)"

text \<open>
  \<open>percentile\<close> on a vector of finite numbers. The same function on a vector that may
  hold infinite entries is \<open>js_percentile\<close> below: there the product of an infinite
  entry with a weight of 0 is \<open>NaN\<close>.
\<close>

definition percentile :: "real list \<Rightarrow> real \<Rightarrow> error + real" where
  "percentile values p =
     (if length values = 0 then Inr 0
      else if p < 0 \<or> p > 100 then Inl (Error ''Percentile must be 0-100'')
      else let sorted = sortBy (\<lambda>a b. a - b) values;
               index = (p / 100) * (real (length sorted) - 1);
               lower = \<lfloor>index\<rfloor>;
               upper = \<lceil>index\<rceil>;
               weight = index - of_int lower
           in Inr (sorted ! nat lower * (1 - weight) + sorted ! nat upper * weight))"

text \<open>
  The comparator \<open>a - b\<close> is \<open>NaN\<close> on two equal infinities, which the sort reads as 0.
  On a vector with a \<open>NaN\<close> entry the comparator is not consistent and the order of the
  result is left to the implementation; \<open>js_percentile\<close> is used on vectors without
  \<open>NaN\<close>.
\<close>

definition js_percentile :: "jsnum list \<Rightarrow> real \<Rightarrow> error + jsnum" where
  "js_percentile values p =
     (if length values = 0 then Inr (Finite 0)
      else if p < 0 \<or> p > 100 then Inl (Error ''Percentile must be 0-100'')
      else let sorted = sortBy (\<lambda>a b. js_sign (js_minus a b)) values;
               index = (p / 100) * (real (length sorted) - 1);
               lower = \<lfloor>index\<rfloor>;
               upper = \<lceil>index\<rceil>;
               weight = index - of_int lower
           in Inr (js_plus (js_times (sorted ! nat lower) (1 - weight))
                           (js_times (sorted ! nat upper) weight)))"

section \<open>Monte Carlo simulation (simulation/montecarlo.ts, math/random.ts)\<close>

text \<open>
  \<open>SeededRandom\<close> multiplies its 31-bit state by 1103515245 in double precision and
  feeds the quotient through \<open>Math.log\<close>, \<open>Math.sqrt\<close> and \<open>Math.cos\<close>; its output is
  fixed by IEEE rounding and by the platform's transcendental functions, not by real
  arithmetic. The simulator is therefore modelled over any generator: \<open>seeded\<close> is the
  constructor, \<open>normal\<close> returns the next standard normal draw with the new state.
  Whatever the simulator is shown to do, it does for every generator whose draws are
  finite. The generator of the program, whose draws need not be, and the portfolio of a
  path under it follow at the end of this section.
\<close>

record 's SeededRandom =
  seeded :: "real \<Rightarrow> 's"
  normal :: "'s \<Rightarrow> real \<times> 's"

definition normalWithParams :: "'s SeededRandom \<Rightarrow> real \<Rightarrow> real \<Rightarrow> 's \<Rightarrow> real \<times> 's" where
  "normalWithParams rng mu std st = (case normal rng st of (z, st') \<Rightarrow> (mu + std * z, st'))"

record MonteCarloConfig =
  numSimulations :: real
  seed :: "real option"

record SimulationPath =
  sim_id :: nat
  sim_timeline :: "YearlyProjection list"
  terminalValue :: real
  depletedAt :: "nat option"

record MonteCarloResult =
  successProbability :: real
  medianOutcome :: real
  percentiles_p10 :: "YearlyProjection list"
  percentiles_p25 :: "YearlyProjection list"
  percentiles_p50 :: "YearlyProjection list"
  percentiles_p75 :: "YearlyProjection list"
  percentiles_p90 :: "YearlyProjection list"
  terminalValueDistribution_mean :: real
  terminalValueDistribution_median :: real
  terminalValueDistribution_std :: real
  terminalValueDistribution_values :: "real list"
  shortfallRisk_probability :: real
  shortfallRisk_averageShortfall :: real
  shortfallRisk_worstCase :: real

text \<open>
  The inner loop over the allocation: one draw per asset, in allocation order. An asset
  missing from the bundle has \<open>params = undefined\<close>, and reading
  \<open>params.nominalReturn\<close> throws.
\<close>

fun samplePortfolioReturn ::
  "'s SeededRandom \<Rightarrow> (real \<times> AssetClassParams option) list \<Rightarrow> real \<Rightarrow> 's \<Rightarrow> error + (real \<times> 's)" where
  "samplePortfolioReturn rng [] portfolioReturn st = Inr (portfolioReturn, st)"
| "samplePortfolioReturn rng ((weight, params) # rest) portfolioReturn st =
     (case params of
        None \<Rightarrow> Inl TypeError
      | Some p \<Rightarrow>
          (case normalWithParams rng (nominalReturn_mean p / 100)
                  (nominalReturn_volatility p / 100) st of
             (assetReturn, st') \<Rightarrow>
               samplePortfolioReturn rng rest (portfolioReturn + weight * assetReturn) st'))"

function simulateTimeline ::
  "'s SeededRandom \<Rightarrow> ProjectionInputs \<Rightarrow> (real \<times> AssetClassParams option) list \<Rightarrow>
     real \<Rightarrow> real \<Rightarrow> real \<Rightarrow> nat \<Rightarrow> real \<Rightarrow> 's \<Rightarrow> error + YearlyProjection list" where
  "simulateTimeline rng inputs assetParams inflationRate investmentGrowth expenseGrowth
       yr portfolio st =
     (if real yr < lifeExpectancy inputs - currentAge inputs
      then (case samplePortfolioReturn rng assetParams 0 st of
              Inl e \<Rightarrow> Inl e
            | Inr (portfolioReturn, st') \<Rightarrow>
               (let entry = projectYear inputs inflationRate investmentGrowth expenseGrowth
                              portfolioReturn yr portfolio
                in if portfolioValue entry = 0 \<and> age entry \<ge> retirementAge inputs
                   then Inr [entry]
                   else (case simulateTimeline rng inputs assetParams inflationRate
                                 investmentGrowth expenseGrowth (Suc yr)
                                 (portfolioValue entry) st' of
                           Inl e \<Rightarrow> Inl e
                         | Inr rest \<Rightarrow> Inr (entry # rest))))
      else Inr [])"
  by pat_completeness auto
termination
  by (relation "measure (\<lambda>(rng, inputs, assetParams, inflationRate, investmentGrowth,
                           expenseGrowth, yr, portfolio, st).
        nat \<lceil>lifeExpectancy inputs - currentAge inputs\<rceil> - yr)")
     (auto, linarith+)

declare simulateTimeline.simps [simp del]

definition runSingleSimulation ::
  "'s SeededRandom \<Rightarrow> ProjectionInputs \<Rightarrow> MarketAssumptions \<Rightarrow> real
     \<Rightarrow> error + YearlyProjection list" where
  "runSingleSimulation rng inputs assumptions sd =
     (let inflationRate = inflation_mean assumptions / 100;
          investmentGrowth = orDefault (investmentGrowthRate inputs) (inflationRate + 1 / 100);
          expenseGrowth = orDefault (expenseGrowthRate inputs) inflationRate;
          assetParams = map (\<lambda>(assetId, weight). (weight / 100, assetClasses assumptions assetId))
                            (assetAllocation inputs)
      in simulateTimeline rng inputs assetParams inflationRate investmentGrowth expenseGrowth
           0 (currentSavings inputs) (seeded rng sd))"

text \<open>
  \<open>aggregateResults\<close>, on paths of finite numbers. With no simulation at all
  \<open>sortedSims[p50Index]\<close> is \<open>undefined\<close> and reading its \<open>terminalValue\<close> throws; with at
  least one, every index \<open>\<lfloor>N \<sdot> q\<rfloor>\<close> is in range. The two medians of a run whose paths
  may end at \<open>Infinity\<close> are \<open>monteCarloMedians\<close> at the end of this section.
\<close>

definition aggregateResults ::
  "SimulationPath list \<Rightarrow> ProjectionInputs \<Rightarrow> error + MonteCarloResult" where
  "aggregateResults simulations inputs =
     (let n = length simulations;
          successes = length (filter (\<lambda>sim. sim_timeline sim \<noteq> []
                                 \<and> portfolioValue (last (sim_timeline sim)) > 0) simulations);
          successProbability = real successes / real n;
          terminalValues = map terminalValue simulations;
          sortedSims = sortBy (\<lambda>a b. terminalValue a - terminalValue b) simulations;
          p10Index = nat \<lfloor>real n * (10 / 100)\<rfloor>;
          p25Index = nat \<lfloor>real n * (25 / 100)\<rfloor>;
          p50Index = nat \<lfloor>real n * (50 / 100)\<rfloor>;
          p75Index = nat \<lfloor>real n * (75 / 100)\<rfloor>;
          p90Index = nat \<lfloor>real n * (90 / 100)\<rfloor>;
          failedSims = filter (\<lambda>sim. depletedAt sim \<noteq> None) simulations;
          avgShortfall =
            (if length failedSims > 0
             then mean (map (\<lambda>sim.
                    case find (\<lambda>y. Some (year y) = depletedAt sim) (sim_timeline sim) of
                      Some depletedYear \<Rightarrow> \<bar>portfolioValue depletedYear\<bar>
                    | None \<Rightarrow> 0) failedSims)
             else 0)
      in if n = 0 then Inl TypeError
         else case percentile terminalValues 50 of
                Inl e \<Rightarrow> Inl e
              | Inr med \<Rightarrow>
                  Inr \<lparr> successProbability = successProbability,
                        medianOutcome = terminalValue (sortedSims ! p50Index),
                        percentiles_p10 = sim_timeline (sortedSims ! p10Index),
                        percentiles_p25 = sim_timeline (sortedSims ! p25Index),
                        percentiles_p50 = sim_timeline (sortedSims ! p50Index),
                        percentiles_p75 = sim_timeline (sortedSims ! p75Index),
                        percentiles_p90 = sim_timeline (sortedSims ! p90Index),
                        terminalValueDistribution_mean = mean terminalValues,
                        terminalValueDistribution_median = med,
                        terminalValueDistribution_std = standardDeviation terminalValues,
                        terminalValueDistribution_values = terminalValues,
                        shortfallRisk_probability = 1 - successProbability,
                        shortfallRisk_averageShortfall = avgShortfall,
                        shortfallRisk_worstCase = terminalValue (sortedSims ! 0) \<rparr>)"

text \<open>
  The simulation loop of \<open>runMonteCarlo\<close>, over the indices \<open>sim = 0, 1, \<dots>\<close> below
  \<open>numSimulations\<close>; an exception in a path ends the run.
\<close>

fun runSimulations ::
  "'s SeededRandom \<Rightarrow> ProjectionInputs \<Rightarrow> MarketAssumptions \<Rightarrow> MonteCarloConfig
     \<Rightarrow> nat list \<Rightarrow> error + SimulationPath list" where
  "runSimulations rng inputs assumptions config [] = Inr []"
| "runSimulations rng inputs assumptions config (sim # sims) =
     (let sd = orDefault (seed config) 42 + real sim in
      case runSingleSimulation rng inputs assumptions sd of
        Inl e \<Rightarrow> Inl e
      | Inr tline \<Rightarrow>
          (case runSimulations rng inputs assumptions config sims of
             Inl e \<Rightarrow> Inl e
           | Inr paths \<Rightarrow>
               Inr (\<lparr> sim_id = sim,
                      sim_timeline = tline,
                      terminalValue = (if tline = [] then 0 else portfolioValue (last tline)),
                      depletedAt = map_option year
                        (find (\<lambda>y. portfolioValue y = 0 \<and> age y \<ge> retirementAge inputs) tline) \<rparr>
                    # paths)))"

definition runMonteCarlo ::
  "'s SeededRandom \<Rightarrow> ProjectionInputs \<Rightarrow> MarketAssumptions \<Rightarrow> MonteCarloConfig
     \<Rightarrow> error + MonteCarloResult" where
  "runMonteCarlo rng rawInputs assumptions config =
     (let inputs = sanitizeInputs rawInputs in
      case validateInputs inputs of
        Inl e \<Rightarrow> Inl e
      | Inr _ \<Rightarrow>
          (case runSimulations rng inputs assumptions config
                  [0 ..< nat \<lceil>numSimulations config\<rceil>] of
             Inl e \<Rightarrow> Inl e
           | Inr simulations \<Rightarrow> aggregateResults simulations inputs))"

subsection \<open>The generator (math/random.ts)\<close>

text \<open>
  \<open>next()\<close> is \<open>this.seed = (this.seed * 1103515245 + 12345) & 0x7fffffff\<close>, returning
  \<open>this.seed / 0x7fffffff\<close>. For an integer seed the product and the sum are integers,
  each rounded to the nearest double: 53 significant bits, ties to the even
  significand. \<open>ulp m\<close> is the spacing of the doubles at magnitude \<open>m\<close> and
  \<open>roundToDouble\<close> that rounding on integers. \<open>&\<close> reduces its left operand modulo
  \<open>2^32\<close> before masking. The state is kept as the integer; the uniform number returned
  is the state over 2147483647, and is 0 exactly when the state is 0.
\<close>

unbundle bit_operations_syntax

function ulp :: "nat \<Rightarrow> nat" where
  "ulp m = (if m < 2 ^ 53 then 1 else 2 * ulp (m div 2))"
  by pat_completeness auto
termination
  by (relation "measure (\<lambda>m. m)") auto

declare ulp.simps [simp del]

definition roundToDouble :: "int \<Rightarrow> int" where
  "roundToDouble n =
     (let m = nat \<bar>n\<bar>;
          u = ulp m;
          q = m div u;
          r = m mod u;
          q' = (if 2 * r > u \<or> (2 * r = u \<and> odd q) then q + 1 else q)
      in sgn n * int (q' * u))"

definition SeededRandom_next :: "int \<Rightarrow> int" where
  "SeededRandom_next s =
     (roundToDouble (roundToDouble (s * 1103515245) + 12345) mod 4294967296) AND 2147483647"

text \<open>
  \<open>normal()\<close> is the Box-Muller transform
  \<open>Math.sqrt(-2 * Math.log(u1)) * Math.cos(2 * Math.PI * u2)\<close> of two successive
  uniform numbers. For \<open>u1 > 0\<close> the draw is finite, and is taken as the exact real the
  expression denotes. For \<open>u1 = 0\<close>, \<open>Math.log(0)\<close> is \<open>-Infinity\<close>, the square root is
  \<open>Infinity\<close>, and the draw is \<open>Infinity\<close> times the cosine: an infinity of the cosine's
  sign, \<open>NaN\<close> for a cosine of 0. The result is the draw and the new state.
\<close>

definition SeededRandom_normal :: "int \<Rightarrow> jsnum \<times> int" where
  "SeededRandom_normal s =
     (let s1 = SeededRandom_next s;
          u1 = real_of_int s1 / 2147483647;
          s2 = SeededRandom_next s1;
          u2 = real_of_int s2 / 2147483647;
          c = cos (2 * pi * u2)
      in (if u1 = 0 then js_times PosInfinity c else Finite (sqrt (- 2 * ln u1) * c), s2))"

text \<open>
  The portfolio of one path under this generator, in the arithmetic of \<open>jsnum\<close>: the
  year loop of \<open>runSingleSimulation\<close> again, with the value of \<open>portfolio\<close> at the end of
  each year. \<open>drawPortfolioReturn\<close> is the inner loop over the allocation, with
  \<open>normalWithParams(mean, std) = mean + std * normal()\<close> written out. The year's net
  cash flow depends neither on the portfolio nor on the return, and is read off
  \<open>projectYear\<close>.
\<close>

fun drawPortfolioReturn ::
  "(real \<times> AssetClassParams option) list \<Rightarrow> jsnum \<Rightarrow> int \<Rightarrow> error + (jsnum \<times> int)" where
  "drawPortfolioReturn [] portfolioReturn s = Inr (portfolioReturn, s)"
| "drawPortfolioReturn ((weight, params) # rest) portfolioReturn s =
     (case params of
        None \<Rightarrow> Inl TypeError
      | Some p \<Rightarrow>
          (case SeededRandom_normal s of
             (z, s') \<Rightarrow>
               (let assetReturn = js_plus (Finite (nominalReturn_mean p / 100))
                                    (js_times z (nominalReturn_volatility p / 100))
                in drawPortfolioReturn rest
                     (js_plus portfolioReturn (js_times assetReturn weight)) s')))"

function simulatePortfolio ::
  "ProjectionInputs \<Rightarrow> (real \<times> AssetClassParams option) list \<Rightarrow>
     real \<Rightarrow> real \<Rightarrow> real \<Rightarrow> nat \<Rightarrow> jsnum \<Rightarrow> int \<Rightarrow> error + jsnum list" where
  "simulatePortfolio inputs assetParams inflationRate investmentGrowth expenseGrowth
       yr portfolio s =
     (if real yr < lifeExpectancy inputs - currentAge inputs
      then (case drawPortfolioReturn assetParams (Finite 0) s of
              Inl e \<Rightarrow> Inl e
            | Inr (portfolioReturn, s') \<Rightarrow>
               (let isRetired = (currentAge inputs + real yr \<ge> retirementAge inputs);
                    investmentReturn = js_mult portfolio portfolioReturn;
                    netCashflow = netCashflow (projectYear inputs inflationRate investmentGrowth
                                                 expenseGrowth 0 yr 0);
                    portfolio1 = js_plus (js_plus portfolio investmentReturn) (Finite netCashflow);
                    portfolio2 = (if js_negative portfolio1 then Finite 0 else portfolio1)
                in if portfolio2 = Finite 0 \<and> isRetired
                   then Inr [portfolio2]
                   else (case simulatePortfolio inputs assetParams inflationRate
                                 investmentGrowth expenseGrowth (Suc yr) portfolio2 s' of
                           Inl e \<Rightarrow> Inl e
                         | Inr rest \<Rightarrow> Inr (portfolio2 # rest))))
      else Inr [])"
  by pat_completeness auto
termination
  by (relation "measure (\<lambda>(inputs, assetParams, inflationRate, investmentGrowth,
                           expenseGrowth, yr, portfolio, s).
        nat \<lceil>lifeExpectancy inputs - currentAge inputs\<rceil> - yr)")
     (auto, linarith+)

declare simulatePortfolio.simps [simp del]

definition simulatedPortfolioValues ::
  "ProjectionInputs \<Rightarrow> MarketAssumptions \<Rightarrow> int \<Rightarrow> error + jsnum list" where
  "simulatedPortfolioValues inputs assumptions sd =
     (let inflationRate = inflation_mean assumptions / 100;
          investmentGrowth = orDefault (investmentGrowthRate inputs) (inflationRate + 1 / 100);
          expenseGrowth = orDefault (expenseGrowthRate inputs) inflationRate;
          assetParams = map (\<lambda>(assetId, weight). (weight / 100, assetClasses assumptions assetId))
                            (assetAllocation inputs)
      in simulatePortfolio inputs assetParams inflationRate investmentGrowth expenseGrowth
           0 (Finite (currentSavings inputs)) sd)"

subsection \<open>The medians of a run under the generator\<close>

text \<open>
  \<open>runMonteCarlo\<close> under this generator, as far as the terminal values and the two
  medians that \<open>aggregateResults\<close> reports on them, in the arithmetic of \<open>jsnum\<close>:
  \<open>aggregateMedians\<close> is that part of \<open>aggregateResults\<close>, which reads nothing of the
  paths but their terminal values, and \<open>monteCarloMedians\<close> the run. The base seed is an
  integer (one that is a double), \<open>seed || 42\<close> reads 0 as absent, and path \<open>sim\<close> is
  seeded with \<open>seed + sim\<close>.

  \<open>terminalValueOf\<close> is \<open>timeline[timeline.length - 1]?.portfolioValue || 0\<close>: 0 for an
  empty timeline and for a last portfolio of 0 or \<open>NaN\<close>, both falsy. Sorting the paths
  by terminal value and reading the terminal value of the path at a rank is reading
  that rank of the sorted terminal values; terminal values are never \<open>NaN\<close>, so the
  comparator is consistent. With no path at all reading \<open>sortedSims[p50Index]\<close> throws.
\<close>

definition terminalValueOf :: "jsnum list \<Rightarrow> jsnum" where
  "terminalValueOf portfolioValues =
     (if portfolioValues = [] then Finite 0
      else (case last portfolioValues of NaN \<Rightarrow> Finite 0 | v \<Rightarrow> v))"

fun simulateTerminalValues ::
  "ProjectionInputs \<Rightarrow> MarketAssumptions \<Rightarrow> int \<Rightarrow> nat list \<Rightarrow> error + jsnum list" where
  "simulateTerminalValues inputs assumptions baseSeed [] = Inr []"
| "simulateTerminalValues inputs assumptions baseSeed (sim # sims) =
     (case simulatedPortfolioValues inputs assumptions (baseSeed + int sim) of
        Inl e \<Rightarrow> Inl e
      | Inr portfolioValues \<Rightarrow>
          (case simulateTerminalValues inputs assumptions baseSeed sims of
             Inl e \<Rightarrow> Inl e
           | Inr terminalValues \<Rightarrow> Inr (terminalValueOf portfolioValues # terminalValues)))"

record MedianSummary =
  ms_medianOutcome :: jsnum
  ms_median :: jsnum
  ms_values :: "jsnum list"

definition aggregateMedians :: "jsnum list \<Rightarrow> error + MedianSummary" where
  "aggregateMedians terminalValues =
     (if terminalValues = [] then Inl TypeError
      else (case js_percentile terminalValues 50 of
              Inl e \<Rightarrow> Inl e
            | Inr med \<Rightarrow>
                (let sorted = sortBy (\<lambda>a b. js_sign (js_minus a b)) terminalValues;
                     p50Index = nat \<lfloor>real (length terminalValues) * (50 / 100)\<rfloor>
                 in Inr \<lparr> ms_medianOutcome = sorted ! p50Index,
                          ms_median = med,
                          ms_values = terminalValues \<rparr>)))"

definition monteCarloMedians ::
  "ProjectionInputs \<Rightarrow> MarketAssumptions \<Rightarrow> real \<Rightarrow> int option \<Rightarrow> error + MedianSummary" where
  "monteCarloMedians rawInputs assumptions numSims sd =
     (let inputs = sanitizeInputs rawInputs in
      case validateInputs inputs of
        Inl e \<Rightarrow> Inl e
      | Inr _ \<Rightarrow>
          (let baseSeed = (case sd of None \<Rightarrow> 42 | Some k \<Rightarrow> if k = 0 then 42 else k) in
           case simulateTerminalValues inputs assumptions baseSeed [0 ..< nat \<lceil>numSims\<rceil>] of
             Inl e \<Rightarrow> Inl e
           | Inr terminalValues \<Rightarrow> aggregateMedians terminalValues))"

section \<open>Goal allocation (goals/types.ts, goals/optimizer.ts)\<close>

text \<open>
  The allocator divides by the caller's budget, so its utilisation figure is a
  \<open>jsnum\<close>.
\<close>

datatype Priority = high | medium | low

datatype Feasibility = on_track | tight | underfunded | impossible

record GoalInput =
  goal_id :: string
  goal_name :: string
  targetAmount :: real
  targetYear :: real
  priority :: Priority
  goal_currentSavings :: "real option"

record GoalAllocation =
  goalId :: string
  monthlySIP :: real
  allocation_requiredSIP :: real
  feasibility :: Feasibility
  projectedValue :: real
  shortfall :: real

text \<open>
  The conflict and recommendation strings are built from a goal name and rounded,
  locale-formatted amounts; the model keeps which message it is and the amounts it is
  built from.
\<close>

datatype Conflict =
    PartiallyFunded string real real   \<comment> \<open>name, required SIP, allocated\<close>
  | CannotBeFunded string real         \<comment> \<open>name, required SIP\<close>

datatype Recommendation =
    IncreaseBudget real                \<comment> \<open>deficit\<close>
  | ConsiderDeferring nat              \<comment> \<open>number of goals not on track\<close>
  | SurplusAvailable real              \<comment> \<open>remaining budget\<close>

record GoalAllocationResult =
  allocations :: "GoalAllocation list"
  totalMonthly :: real
  unallocated :: real
  budgetUtilization :: jsnum
  conflicts :: "Conflict list"
  recommendations :: "Recommendation list"

record Requirement =
  req_goalId :: string
  req_name :: string
  req_requiredSIP :: real
  req_priority :: Priority
  req_targetAmount :: real
  req_years :: real

text \<open>
  Step 1 for one goal. \<open>currentYear\<close> is \<open>new Date().getFullYear()\<close>, an argument here.
\<close>

definition requirementOf :: "MarketAssumptions \<Rightarrow> real \<Rightarrow> GoalInput \<Rightarrow> error + Requirement" where
  "requirementOf assumptions currentYear goal =
     (let years = targetYear goal - currentYear in
      if years \<le> 0 then Inl (Error ''Goal has invalid target year (must be in future)'')
      else
        let inflationRate = inflation_mean assumptions / 100;
            futureValue = targetAmount goal * Math_pow (1 + inflationRate) years;
            expectedReturn = 10 / 100;
            currentSavings = orDefault (goal_currentSavings goal) 0;
            futureValueOfSavings = currentSavings * Math_pow (1 + expectedReturn) years;
            remainingNeeded = max 0 (futureValue - futureValueOfSavings)
        in case (if remainingNeeded > 0
                 then requiredSIP remainingNeeded expectedReturn years monthly
                 else Inr 0) of
             Inl e \<Rightarrow> Inl e
           | Inr required \<Rightarrow>
               Inr \<lparr> req_goalId = goal_id goal,
                     req_name = goal_name goal,
                     req_requiredSIP = required,
                     req_priority = priority goal,
                     req_targetAmount = futureValue,
                     req_years = years \<rparr>)"

fun requirementsOf :: "MarketAssumptions \<Rightarrow> real \<Rightarrow> GoalInput list \<Rightarrow> error + Requirement list" where
  "requirementsOf assumptions currentYear [] = Inr []"
| "requirementsOf assumptions currentYear (goal # goals) =
     (case requirementOf assumptions currentYear goal of
        Inl e \<Rightarrow> Inl e
      | Inr r \<Rightarrow>
          (case requirementsOf assumptions currentYear goals of
             Inl e \<Rightarrow> Inl e
           | Inr rs \<Rightarrow> Inr (r # rs)))"

fun priorityOrder :: "Priority \<Rightarrow> real" where
  "priorityOrder high = 3"
| "priorityOrder medium = 2"
| "priorityOrder low = 1"

definition comparePriority :: "Requirement \<Rightarrow> Requirement \<Rightarrow> real" where
  "comparePriority a b =
     (let priorityDiff = priorityOrder (req_priority b) - priorityOrder (req_priority a)
      in if priorityDiff \<noteq> 0 then priorityDiff else req_years a - req_years b)"

text \<open>
  Step 3, the greedy loop: the running \<open>remaining\<close> budget is passed along and
  returned; allocations and conflicts come out in loop order.
\<close>

fun allocateGreedy ::
  "GoalInput list \<Rightarrow> Requirement list \<Rightarrow> real
     \<Rightarrow> error + (GoalAllocation list \<times> Conflict list \<times> real)" where
  "allocateGreedy goals [] remaining = Inr ([], [], remaining)"
| "allocateGreedy goals (req # reqs) remaining =
     (let (allocated, feas, remaining', conflict) =
            (if remaining \<ge> req_requiredSIP req
               then (req_requiredSIP req, on_track, remaining - req_requiredSIP req, [])
             else if remaining > 0
               then (remaining,
                     (if remaining / req_requiredSIP req > 7 / 10 then tight else underfunded),
                     0,
                     [PartiallyFunded (req_name req) (req_requiredSIP req) remaining])
             else (0, impossible, remaining,
                   [CannotBeFunded (req_name req) (req_requiredSIP req)]));
          projectedFromSIP =
            (if allocated > 0
             then allocated * (((Math_pow (110 / 100) (req_years req) - 1) / ((10 / 100) / 12))
                               * (1 + (10 / 100) / 12))
             else 0)
      in case find (\<lambda>g. goal_id g = req_goalId req) goals of
           None \<Rightarrow> Inl TypeError
         | Some goal \<Rightarrow>
            (let projectedFromSavings =
                   orDefault (goal_currentSavings goal) 0 * Math_pow (110 / 100) (req_years req);
                 totalProjected = projectedFromSIP + projectedFromSavings;
                 sf = max 0 (req_targetAmount req - totalProjected);
                 allocation = \<lparr> goalId = req_goalId req,
                                monthlySIP = allocated,
                                allocation_requiredSIP = req_requiredSIP req,
                                feasibility = feas,
                                projectedValue = totalProjected,
                                shortfall = sf \<rparr>
             in case allocateGreedy goals reqs remaining' of
                  Inl e \<Rightarrow> Inl e
                | Inr (allocs, confs, rest) \<Rightarrow> Inr (allocation # allocs, conflict @ confs, rest)))"

definition allocateGoalBudget ::
  "GoalInput list \<Rightarrow> real \<Rightarrow> MarketAssumptions \<Rightarrow> real \<Rightarrow> error + GoalAllocationResult" where
  "allocateGoalBudget goals monthlyBudget assumptions currentYear =
     (if monthlyBudget < 0 then Inl (Error ''Monthly budget cannot be negative'')
      else if length goals = 0
        then Inr \<lparr> allocations = [], totalMonthly = 0, unallocated = monthlyBudget,
                   budgetUtilization = Finite 0, conflicts = [], recommendations = [] \<rparr>
      else case requirementsOf assumptions currentYear goals of
             Inl e \<Rightarrow> Inl e
           | Inr requirements \<Rightarrow>
              (let sorted = sortBy comparePriority requirements in
               case allocateGreedy goals sorted monthlyBudget of
                 Inl e \<Rightarrow> Inl e
               | Inr (allocs, confs, remaining) \<Rightarrow>
                  (let totalRequired = sum_list (map req_requiredSIP sorted);
                       recs =
                         (if totalRequired > monthlyBudget
                          then IncreaseBudget (totalRequired - monthlyBudget) #
                               (let underfundedGoals =
                                      filter (\<lambda>a. feasibility a \<noteq> on_track) allocs
                                in if length underfundedGoals > 0
                                   then [ConsiderDeferring (length underfundedGoals)] else [])
                          else if remaining > 0 then [SurplusAvailable remaining]
                          else [])
                   in Inr \<lparr> allocations = allocs,
                            totalMonthly = monthlyBudget - remaining,
                            unallocated = remaining,
                            budgetUtilization =
                              js_times (js_divide (monthlyBudget - remaining) monthlyBudget) 100,
                            conflicts = confs,
                            recommendations = recs \<rparr>)))"

section \<open>Rebalancing (rebalancing/types.ts, rebalancing/rebalancer.ts)\<close>

text \<open>
  A \<open>Portfolio\<close> and a target allocation are objects keyed by asset id: association
  lists in key order, with distinct keys. \<open>obj[asset] || 0\<close> is \<open>valueOr0\<close>.
\<close>

definition valueOr0 :: "(string \<times> real) list \<Rightarrow> string \<Rightarrow> real" where
  "valueOr0 obj asset = (case map_of obj asset of None \<Rightarrow> 0 | Some v \<Rightarrow> v)"

datatype TradeAction = BUY | SELL

record Trade =
  asset :: string
  action :: TradeAction
  amount :: real
  currentValue :: real
  targetValue :: real

record RebalancingConfig =
  driftThreshold :: real
  minimumTradeAmount :: "real option"
  tradingCostBps :: "real option"

text \<open>\<open>Math.max()\<close> of no arguments is \<open>-Infinity\<close>, which is \<open>None\<close> here.\<close>

fun Math_max :: "real list \<Rightarrow> real option" where
  "Math_max [] = None"
| "Math_max (x # xs) = Some (fold max xs x)"

record RebalancingResult =
  needsRebalancing :: bool
  drifts :: "(string \<times> real) list"
  maxDrift :: "real option"
  trades :: "Trade list"
  estimatedCost :: real
  impactOnReturn :: real

definition defaultConfig :: RebalancingConfig where
  "defaultConfig = \<lparr> driftThreshold = 5, minimumTradeAmount = None, tradingCostBps = None \<rparr>"

definition tradeFor ::
  "(string \<times> real) list \<Rightarrow> (string \<times> real) list \<Rightarrow> real \<Rightarrow> real \<Rightarrow> string \<times> real
     \<Rightarrow> Trade list" where
  "tradeFor currentHoldings targetAllocation totalValue minimumTrade entry =
     (case entry of (a, drift) \<Rightarrow>
        if \<bar>drift\<bar> > 1
        then (case map_of targetAllocation a of
                None \<Rightarrow> []
              | Some target \<Rightarrow>
                 (let tv = (target / 100) * totalValue;
                      cv = valueOr0 currentHoldings a;
                      tradeAmount = tv - cv
                  in if \<bar>tradeAmount\<bar> \<ge> minimumTrade
                     then [\<lparr> asset = a,
                             action = (if tradeAmount > 0 then BUY else SELL),
                             amount = \<bar>tradeAmount\<bar>,
                             currentValue = cv,
                             targetValue = tv \<rparr>]
                     else []))
        else [])"

definition generateRebalancingTrades ::
  "(string \<times> real) list \<Rightarrow> (string \<times> real) list \<Rightarrow> MarketAssumptions \<Rightarrow> RebalancingConfig
     \<Rightarrow> RebalancingResult" where
  "generateRebalancingTrades currentHoldings targetAllocation assumptions config =
     (let totalValue = sum_list (map snd currentHoldings) in
      if totalValue = 0
      then \<lparr> needsRebalancing = False, drifts = [], maxDrift = Some 0, trades = [],
             estimatedCost = 0, impactOnReturn = 0 \<rparr>
      else
        let currentPercentages =
              map (\<lambda>(a, v). (a, (v / totalValue) * 100)) currentHoldings;
            ds = map (\<lambda>(a, target). (a, valueOr0 currentPercentages a - target))
                     targetAllocation;
            md = Math_max (map (\<lambda>(a, d). \<bar>d\<bar>) ds)
        in if (case md of None \<Rightarrow> True | Some m \<Rightarrow> m < driftThreshold config)
           then \<lparr> needsRebalancing = False, drifts = ds, maxDrift = md, trades = [],
                  estimatedCost = 0, impactOnReturn = 0 \<rparr>
           else
             let minimumTrade = orDefault (minimumTradeAmount config) 10000;
                 ts = concat (map (tradeFor currentHoldings targetAllocation totalValue
                                     minimumTrade) ds);
                 cost = fold (\<lambda>trade total.
                          total + (amount trade *
                            orDefault (tradingCostBps config)
                              (orDefault (map_option tradingCost
                                            (assetClasses assumptions (asset trade))) 10)
                            / 10000)) ts 0
             in \<lparr> needsRebalancing = True, drifts = ds, maxDrift = md, trades = ts,
                   estimatedCost = cost, impactOnReturn = (cost / totalValue) * 10000 \<rparr>)"

definition calculateDrift ::
  "(string \<times> real) list \<Rightarrow> (string \<times> real) list \<Rightarrow> (string \<times> real) list" where
  "calculateDrift currentHoldings targetAllocation =
     (let totalValue = sum_list (map snd currentHoldings) in
      if totalValue = 0 then []
      else map (\<lambda>(a, target). (a, (valueOr0 currentHoldings a / totalValue) * 100 - target))
               targetAllocation)"



section \<open>Notions used to state the properties\<close>

text \<open>
  A timeline read against the portfolio at the start of each year: the first record
  starts from \<open>start\<close>, every later one from the end-of-year value of the record before
  it. \<open>withdrawalRatesFromStart\<close> says that the withdrawal rate is defined exactly when
  the end-of-year portfolio is positive, and is then the year's withdrawal over the
  portfolio before the withdrawal.
\<close>

fun withdrawalRatesFromStart :: "real \<Rightarrow> YearlyProjection list \<Rightarrow> bool" where
  "withdrawalRatesFromStart start [] = True"
| "withdrawalRatesFromStart start (e # es) =
     ((case withdrawalRate e of
         None \<Rightarrow> portfolioValue e \<le> 0
       | Some r \<Rightarrow> 0 < portfolioValue e
           \<and> r = withdrawals e / (start + investmentReturn e + contributions e))
      \<and> withdrawalRatesFromStart (portfolioValue e) es)"

text \<open>
  Concrete inputs for the closed instances below: the baseline household of the test
  suite, aged 98 to keep the timeline at two years, on the India 2024-Q4 bundle; and a
  generator whose \<open>k\<close>-th draw from seed \<open>s\<close> is \<open>s - 42 + k\<close>.
\<close>

definition exampleInputs :: ProjectionInputs where
  "exampleInputs = \<lparr>
     currentAge = 98, retirementAge = 99, lifeExpectancy = 100,
     currentSavings = 1000000,
     monthlyInvestment = 25000, investmentGrowthRate = None,
     monthlyExpenses = 50000, expenseGrowthRate = None,
     assetAllocation = [(''equity-nifty50'', 70), (''debt-govt-10y'', 30)],
     futureExpenses = None \<rparr>"

definition exampleGenerator :: "real SeededRandom" where
  "exampleGenerator = \<lparr> seeded = (\<lambda>sd. sd), normal = (\<lambda>st. (st - 42, st + 1)) \<rparr>"

text \<open>The vacation goal of the allocator's test suite, one year ahead of 2026.\<close>

definition exampleGoal :: GoalInput where
  "exampleGoal = \<lparr> goal_id = ''3'', goal_name = ''Vacation Fund'', targetAmount = 500000,
       targetYear = 2027, priority = low, goal_currentSavings = None \<rparr>"

text \<open>
  Two portfolios of one million: the 85/15 holdings of the rebalancer's drift test
  against its 70/30 target, and seven assets of which the first is 5.4 points over its
  target of 40 and the other six are 0.9 points under their targets of 10.
\<close>

definition testHoldings :: "(string \<times> real) list" where
  "testHoldings = [(''equity-nifty50'', 850000), (''debt-govt-10y'', 150000)]"

definition testTarget :: "(string \<times> real) list" where
  "testTarget = [(''equity-nifty50'', 70), (''debt-govt-10y'', 30)]"








section \<open>Properties of the statistics kernel\<close>

lemma insertBy_diff: "insertBy (\<lambda>a b. a - b) x ys = insort (x::real) ys"
  by (induction ys) auto

lemma sortBy_diff: "sortBy (\<lambda>a b. a - b) xs = sort (xs::real list)"
  unfolding sortBy_def sort_key_def
  by (induction xs) (auto simp: insertBy_diff)

lemma sort_nth_0: "xs \<noteq> [] \<Longrightarrow> sort xs ! 0 = Min (set (xs::real list))"
proof -
  assume ne: "xs \<noteq> []"
  have s: "sorted (sort xs)" and st: "set (sort xs) = set xs" and l: "length (sort xs) = length xs" by simp_all
  from ne have ne': "sort xs \<noteq> []" by (metis l length_0_conv)
  then obtain y ys where e: "sort xs = y # ys" by (cases "sort xs") auto
  with s have "\<forall>z\<in>set (sort xs). y \<le> z" by auto
  moreover have "y \<in> set (sort xs)" using e by simp
  ultimately have "Min (set (sort xs)) = y" by (intro Min_eqI) auto
  with e st show ?thesis by simp
qed

lemma sort_nth_last: "xs \<noteq> [] \<Longrightarrow> sort xs ! (length xs - 1) = Max (set (xs::real list))"
proof -
  assume ne: "xs \<noteq> []"
  have s: "sorted (sort xs)" and st: "set (sort xs) = set xs" and l: "length (sort xs) = length xs" by simp_all
  let ?n = "length xs - 1"
  have lt: "?n < length (sort xs)" using ne l by (cases xs) auto
  have "\<forall>z\<in>set (sort xs). z \<le> sort xs ! ?n"
  proof
    fix z assume "z \<in> set (sort xs)"
    then obtain i where i: "i < length (sort xs)" "sort xs ! i = z" unfolding in_set_conv_nth by blast
    then have "i \<le> ?n" using l by simp
    from sorted_nth_mono[OF s this lt] i show "z \<le> sort xs ! ?n" by simp
  qed
  moreover have "sort xs ! ?n \<in> set (sort xs)" using lt nth_mem by blast
  ultimately have "Max (set (sort xs)) = sort xs ! ?n" by (intro Max_eqI) auto
  with st show ?thesis by simp
qed

lemma percentile_in_range:
  assumes "values \<noteq> []" "0 \<le> p" "p \<le> 100"
  shows "percentile values p =
     Inr (sort values ! nat \<lfloor>(p / 100) * (real (length values) - 1)\<rfloor>
            * (1 - ((p / 100) * (real (length values) - 1) - of_int \<lfloor>(p / 100) * (real (length values) - 1)\<rfloor>))
          + sort values ! nat \<lceil>(p / 100) * (real (length values) - 1)\<rceil>
            * ((p / 100) * (real (length values) - 1) - of_int \<lfloor>(p / 100) * (real (length values) - 1)\<rfloor>))"
proof -
  have a: "\<not> (length values = 0)" using assms(1) by simp
  have b: "\<not> (p < 0 \<or> p > 100)" using assms(2,3) by simp
  have l: "length (sort values) = length values" by simp
  show ?thesis
    unfolding percentile_def if_not_P[OF a] if_not_P[OF b] Let_def sortBy_diff l ..
qed

lemma percentile_interp:
  assumes k: "Suc k < length values" and t0: "0 \<le> t" and t1: "t \<le> 1"
  shows "percentile values (100 * (real k + t) / (real (length values) - 1))
         = Inr (sort values ! k + t * (sort values ! Suc k - sort values ! k))"
proof -
  let ?n = "length values"
  let ?p = "100 * (real k + t) / (real ?n - 1)"
  have n1: "real ?n - 1 > 0" using k by simp
  have kn: "real k + 1 \<le> real ?n - 1" using k by linarith
  have nz: "real ?n - 1 \<noteq> 0" using n1 by simp
  have idx: "(?p / 100) * (real ?n - 1) = real k + t" using nz by (simp add: field_simps)
  have p0: "0 \<le> ?p" using n1 t0 by simp
  have "real k + t \<le> real ?n - 1" using kn t1 by linarith
  then have p100: "?p \<le> 100" using n1 by (simp add: pos_divide_le_eq)
  have ne: "values \<noteq> []" using k by auto
  have base: "percentile values ?p =
     Inr (sort values ! nat \<lfloor>real k + t\<rfloor> * (1 - (real k + t - of_int \<lfloor>real k + t\<rfloor>))
          + sort values ! nat \<lceil>real k + t\<rceil> * (real k + t - of_int \<lfloor>real k + t\<rfloor>))"
    unfolding percentile_in_range[OF ne p0 p100] idx ..
  consider "t = 0" | "t = 1" | "0 < t" "t < 1" using t0 t1 by linarith
  then show ?thesis
  proof cases
    case 1
    then show ?thesis unfolding base by simp
  next
    case 2
    have f: "\<lfloor>real k + 1\<rfloor> = int k + 1" by linarith
    have c: "\<lceil>real k + 1\<rceil> = int k + 1" by linarith
    have n: "nat (int k + 1) = Suc k" by simp
    show ?thesis using base unfolding 2 f c n by simp
  next
    case 3
    have f: "\<lfloor>real k + t\<rfloor> = int k" using 3 by linarith
    have c: "\<lceil>real k + t\<rceil> = int k + 1" using 3 by linarith
    have n: "nat (int k + 1) = Suc k" by simp
    show ?thesis unfolding base f c n by (simp add: algebra_simps)
  qed
qed


text \<open>
  On a vector of finite numbers \<open>js_percentile\<close> is \<open>percentile\<close>: the sort orders the
  entries as reals, both ranks are in range, and the interpolation is finite.
\<close>

lemma insertBy_Finite:
  "insertBy (\<lambda>a b. js_sign (js_minus a b)) (Finite x) (map Finite ys)
     = map Finite (insertBy (\<lambda>a b. a - b) x ys)"
  by (induction ys) (auto simp: js_minus_def)

lemma sortBy_Finite:
  "sortBy (\<lambda>a b. js_sign (js_minus a b)) (map Finite xs) = map Finite (sort xs)"
  unfolding sortBy_diff[symmetric] sortBy_def
  by (induction xs) (auto simp: insertBy_Finite)

lemma finite_values: "list_all isFinite vs \<Longrightarrow> vs = map Finite (map realOf vs)"
proof (induction vs)
  case Nil
  then show ?case by simp
next
  case (Cons v vs)
  then show ?case by (cases v) auto
qed

lemma rank_in_range:
  assumes "xs \<noteq> []" "0 \<le> p" "p \<le> 100"
  shows "nat \<lfloor>(p / 100) * (real (length xs) - 1)\<rfloor> < length xs"
    and "nat \<lceil>(p / 100) * (real (length xs) - 1)\<rceil> < length xs"
proof -
  let ?i = "(p / 100) * (real (length xs) - 1)"
  have n: "1 \<le> real (length xs)" using assms(1) by (cases xs) auto
  have "p / 100 \<le> 1" using assms(3) by simp
  then have "?i \<le> 1 * (real (length xs) - 1)"
    using n by (intro mult_right_mono) simp_all
  then have le: "?i \<le> real (length xs) - 1" by simp
  have ge: "0 \<le> ?i" using assms(2) n by simp
  have "?i \<le> of_int (int (length xs) - 1)" using le by simp
  then have "\<lceil>?i\<rceil> \<le> int (length xs) - 1" by (rule ceiling_le)
  moreover have "0 \<le> \<lceil>?i\<rceil>" using ge by linarith
  ultimately show "nat \<lceil>?i\<rceil> < length xs" using n by linarith
  have "\<lfloor>?i\<rfloor> \<le> \<lceil>?i\<rceil>" by (rule floor_le_ceiling)
  moreover have "0 \<le> \<lfloor>?i\<rfloor>" using ge by simp
  ultimately show "nat \<lfloor>?i\<rfloor> < length xs"
    using \<open>\<lceil>?i\<rceil> \<le> int (length xs) - 1\<close> n by linarith
qed

lemma js_percentile_finite:
  "js_percentile (map Finite xs) p = map_sum id Finite (percentile xs p)"
proof (cases "xs = [] \<or> p < 0 \<or> p > 100")
  case True
  then show ?thesis by (auto simp: js_percentile_def percentile_def)
next
  case False
  then have ne: "xs \<noteq> []" and p0: "0 \<le> p" and p1: "p \<le> 100" by auto
  note r = rank_in_range[OF ne p0 p1]
  have l: "length (sort xs) = length xs" by simp
  show ?thesis
    using ne p0 p1 r
    by (simp add: js_percentile_def percentile_def Let_def sortBy_Finite sortBy_diff)
qed

text \<open>
  With an infinite entry the interpolation multiplies \<open>Infinity\<close> by a weight of 0. On
  \<open>[1, Infinity]\<close> at \<open>p = 100\<close> both ranks are 1 and the weight is 0: the result is
  \<open>Infinity * 1 + Infinity * 0\<close>, which is \<open>NaN\<close> and not the maximum. A vector of the
  single entry \<open>Infinity\<close> gives \<open>NaN\<close> at every \<open>p\<close> in the same way.
\<close>

lemma js_percentile_infinite_entry: "js_percentile [Finite 1, PosInfinity] 100 = Inr NaN"
  by (simp add: js_percentile_def sortBy_def js_minus_def Let_def)

lemma js_percentile_infinite_only: "js_percentile [PosInfinity] 50 = Inr NaN"
  by (simp add: js_percentile_def sortBy_def js_minus_def Let_def)

text \<open>
  Claim C8 (amended). For every non-empty vector of finite numbers, \<open>percentile v 0\<close> is
  the minimum and
  \<open>percentile v 100\<close> the maximum of \<open>v\<close>; at rank \<open>k + t\<close> with \<open>0 \<le> t \<le> 1\<close> the
  result is the linear interpolation between the sorted elements \<open>k\<close> and \<open>k + 1\<close>; and
  every \<open>p\<close> below 0 or above 100 raises the error. The empty vector is answered before
  the range check: it returns 0 for every \<open>p\<close>, in range or not.
\<close>

theorem percentile_contract:
  assumes ne: "(values :: real list) \<noteq> []"
  shows "percentile values 0 = Inr (Min (set values))
       \<and> percentile values 100 = Inr (Max (set values))
       \<and> (\<forall>k (t::real). Suc k < length values \<and> 0 \<le> t \<and> t \<le> 1 \<longrightarrow>
             percentile values (100 * (real k + t) / (real (length values) - 1))
               = Inr (sort values ! k + t * (sort values ! Suc k - sort values ! k)))
       \<and> (\<forall>p. p < 0 \<or> p > 100 \<longrightarrow> percentile values p = Inl (Error ''Percentile must be 0-100''))
       \<and> (\<forall>p. percentile [] p = Inr 0)"
proof (intro conjI allI impI)
  show "percentile values 0 = Inr (Min (set values))"
    using ne by (simp add: percentile_in_range sort_nth_0)
next
  have e: "real (length values) - 1 = real_of_int (int (length values) - 1)" by simp
  have f: "\<lfloor>real (length values) - 1\<rfloor> = int (length values) - 1"
    unfolding e by (rule floor_of_int)
  have c: "\<lceil>real (length values) - 1\<rceil> = int (length values) - 1"
    unfolding e by (rule ceiling_of_int)
  have n: "nat (int (length values) - 1) = length values - 1" by simp
  have "percentile values 100 = Inr (sort values ! (length values - 1))"
    unfolding percentile_in_range[OF ne, of 100, simplified] f c n by simp
  then show "percentile values 100 = Inr (Max (set values))"
    using sort_nth_last[OF ne] by simp
next
  fix k and t :: real assume "Suc k < length values \<and> 0 \<le> t \<and> t \<le> 1"
  then show "percentile values (100 * (real k + t) / (real (length values) - 1))
               = Inr (sort values ! k + t * (sort values ! Suc k - sort values ! k))"
    using percentile_interp by blast
next
  fix p :: real assume "p < 0 \<or> p > 100"
  then show "percentile values p = Inl (Error ''Percentile must be 0-100'')"
    using ne by (simp add: percentile_def)
next
  fix p show "percentile [] p = Inr 0" by (simp add: percentile_def)
qed

theorem percentile_contract_witness:
  "[3, 1, 2] \<noteq> ([] :: real list)
   \<and> percentile [3, 1, 2] 0 = Inr 1
   \<and> percentile [3, 1, 2] 100 = Inr 3
   \<and> percentile [3, 1, 2] 25 = Inr (3 / 2)
   \<and> percentile [3, 1, 2] 150 = Inl (Error ''Percentile must be 0-100'')"
proof -
  have h: "[3, 1, 2] \<noteq> ([] :: real list)" by simp
  have i: "Suc 0 < length [3, 1, 2 :: real] \<and> (0::real) \<le> 1 / 2 \<and> (1 / 2 :: real) \<le> 1" by simp
  have o: "(150::real) < 0 \<or> (150::real) > 100" by simp
  note c = percentile_contract [OF h]
  from c have "percentile [3, 1, 2] 0 = Inr (Min (set [3, 1, 2 :: real]))" by blast
  moreover from c have "percentile [3, 1, 2] 100 = Inr (Max (set [3, 1, 2 :: real]))" by blast
  moreover from c i have "percentile [3, 1, 2] (100 * (real 0 + 1 / 2) / (real (length [3, 1, 2 :: real]) - 1))
       = Inr (sort [3, 1, 2] ! 0 + (1 / 2) * (sort [3, 1, 2] ! Suc 0 - sort [3, 1, 2 :: real] ! 0))"
    by blast
  moreover from c o have "percentile [3, 1, 2] 150 = Inl (Error ''Percentile must be 0-100'')"
    by blast
  ultimately show ?thesis by simp
qed

text \<open>
  The error clause of claim C8 does not hold for every input vector: on the empty vector
  an out-of-range \<open>p\<close> returns 0 and raises nothing.
\<close>

theorem percentile_empty_counterexample:
  "percentile [] (- 10) = Inr 0"
  by (simp add: percentile_def)

section \<open>Properties of the projection loops\<close>

lemma projectYear_nonneg:
  "0 \<le> portfolioValue (projectYear inputs infl ig eg rate yr p)"
  by (simp add: projectYear_def Let_def)

lemma projectYear_withdrawalRate:
  assumes "withdrawalRate (projectYear inputs infl ig eg rate yr p) = Some r"
  shows "r = withdrawals (projectYear inputs infl ig eg rate yr p)
             / (p + investmentReturn (projectYear inputs infl ig eg rate yr p)
                  + contributions (projectYear inputs infl ig eg rate yr p))"
  using assms
  by (auto simp: projectYear_def Let_def split: if_splits intro!: arg_cong2[where f="(/)"])

lemma projectYear_withdrawalRate_defined:
  "(withdrawalRate (projectYear inputs infl ig eg rate yr p) = None)
     = (portfolioValue (projectYear inputs infl ig eg rate yr p) \<le> 0)"
  by (simp add: projectYear_def Let_def)

lemma projectYear_rate_step:
  "(case withdrawalRate (projectYear inputs infl ig eg rate yr p) of
      None \<Rightarrow> portfolioValue (projectYear inputs infl ig eg rate yr p) \<le> 0
    | Some r \<Rightarrow> 0 < portfolioValue (projectYear inputs infl ig eg rate yr p)
        \<and> r = withdrawals (projectYear inputs infl ig eg rate yr p)
              / (p + investmentReturn (projectYear inputs infl ig eg rate yr p)
                   + contributions (projectYear inputs infl ig eg rate yr p)))"
proof (cases "withdrawalRate (projectYear inputs infl ig eg rate yr p)")
  case None
  then show ?thesis using projectYear_withdrawalRate_defined[of inputs infl ig eg rate yr p] by simp
next
  case (Some r)
  moreover have "0 < portfolioValue (projectYear inputs infl ig eg rate yr p)"
    using Some projectYear_withdrawalRate_defined[of inputs infl ig eg rate yr p] by simp
  ultimately show ?thesis using projectYear_withdrawalRate[OF Some] by simp
qed

lemma projectTimeline_nonneg:
  "list_all (\<lambda>e. 0 \<le> portfolioValue e) (projectTimeline inputs infl ig eg rate yr p)"
proof (induction inputs infl ig eg rate yr p rule: projectTimeline.induct)
  case (1 inputs infl ig eg rate yr p)
  show ?case
    apply (subst projectTimeline.simps)
    using 1 by (auto simp: Let_def projectYear_nonneg)
qed

lemma projectTimeline_rates:
  "withdrawalRatesFromStart p (projectTimeline inputs infl ig eg rate yr p)"
proof (induction inputs infl ig eg rate yr p rule: projectTimeline.induct)
  case (1 inputs infl ig eg rate yr p)
  show ?case
    apply (subst projectTimeline.simps)
    using 1 projectYear_rate_step[of inputs infl ig eg rate yr p] by (simp add: Let_def)
qed

lemma simulateTimeline_nonneg:
  "simulateTimeline rng inputs ap infl ig eg yr p st = Inr tline
   \<Longrightarrow> list_all (\<lambda>e. 0 \<le> portfolioValue e) tline"
proof (induction rng inputs ap infl ig eg yr p st arbitrary: tline rule: simulateTimeline.induct)
  case (1 rng inputs ap infl ig eg yr p st)
  from "1.prems" show ?case
    apply (subst (asm) simulateTimeline.simps)
    using "1.IH" by (auto simp: Let_def projectYear_nonneg split: if_splits sum.splits prod.splits)
qed

lemma simulateTimeline_rates:
  "simulateTimeline rng inputs ap infl ig eg yr p st = Inr tline
   \<Longrightarrow> withdrawalRatesFromStart p tline"
proof (induction rng inputs ap infl ig eg yr p st arbitrary: tline rule: simulateTimeline.induct)
  case (1 rng inputs ap infl ig eg yr p st)
  from "1.prems" show ?case
    apply (subst (asm) simulateTimeline.simps)
    using "1.IH" projectYear_rate_step[of inputs infl ig eg _ yr p]
    by (auto simp: Let_def split: if_splits sum.splits prod.splits)
qed

lemma projectDeterministic_timeline:
  assumes "projectDeterministic rawInputs assumptions = Inr res"
  shows "\<exists>rate. calculatePortfolioReturn (assetAllocation (sanitizeInputs rawInputs)) assumptions = Inr rate \<and>
     timeline res =
       projectTimeline (sanitizeInputs rawInputs) (inflation_mean assumptions / 100)
         (orDefault (investmentGrowthRate (sanitizeInputs rawInputs)) (inflation_mean assumptions / 100 + 1 / 100))
         (orDefault (expenseGrowthRate (sanitizeInputs rawInputs)) (inflation_mean assumptions / 100))
         rate 0 (currentSavings (sanitizeInputs rawInputs))"
  using assms unfolding projectDeterministic_def Let_def
  by (auto split: sum.splits)

lemma Math_round_numeral [simp]: "Math_round (numeral n) = numeral n"
  unfolding Math_round_def by (simp add: floor_eq_iff)

lemma Math_pow_numeral [simp]: "Math_pow x (numeral n) = x ^ numeral n"
  unfolding Math_pow_def by simp

lemma Math_pow_1 [simp]: "Math_pow x 1 = x"
  unfolding Math_pow_def by simp

lemma Math_pow_nonneg: "0 \<le> x \<Longrightarrow> 0 \<le> Math_pow x y"
  unfolding Math_pow_def by (simp add: zero_le_power_int)

lemma presentValueAnnuity_returns:
  "0 \<le> payment \<Longrightarrow> 0 \<le> periods \<Longrightarrow> \<exists>c. presentValueAnnuity payment rate periods = Inr c"
  by (simp add: presentValueAnnuity_def)

lemma projectDeterministic_returns:
  assumes v: "validateInputs (sanitizeInputs rawInputs) = Inr ()"
    and r: "calculatePortfolioReturn (assetAllocation rawInputs) assumptions = Inr rate"
    and i: "- 100 \<le> inflation_mean assumptions"
  shows "\<exists>res. projectDeterministic rawInputs assumptions = Inr res"
proof -
  let ?inp = "sanitizeInputs rawInputs"
  have a: "assetAllocation ?inp = assetAllocation rawInputs" by (simp add: sanitizeInputs_def)
  have m: "0 \<le> monthlyExpenses ?inp" by (simp add: sanitizeInputs_def)
  have p: "0 \<le> lifeExpectancy ?inp - retirementAge ?inp"
    using v by (auto simp: validateInputs_def split: if_splits)
  have "0 \<le> 1 + inflation_mean assumptions / 100" using i by simp
  then have "0 \<le> monthlyExpenses ?inp * 12 *
          Math_pow (1 + inflation_mean assumptions / 100) (retirementAge ?inp - currentAge ?inp)"
    using m by (simp add: Math_pow_nonneg)
  from presentValueAnnuity_returns[OF this p] obtain c where "presentValueAnnuity (monthlyExpenses ?inp * 12 *
          Math_pow (1 + inflation_mean assumptions / 100) (retirementAge ?inp - currentAge ?inp))
          (nominalToReal rate (inflation_mean assumptions / 100))
          (lifeExpectancy ?inp - retirementAge ?inp) = Inr c"
    by blast
  then show ?thesis
    unfolding projectDeterministic_def Let_def using v r a by simp
qed

lemma exampleInputs_sanitized: "sanitizeInputs exampleInputs = exampleInputs"
  by (simp add: sanitizeInputs_def exampleInputs_def)

lemma exampleInputs_valid: "validateInputs exampleInputs = Inr ()"
  by (simp add: validateInputs_def exampleInputs_def)

lemma example_return:
  "calculatePortfolioReturn [(''equity-nifty50'', 70), (''debt-govt-10y'', 30)] INDIA_2024_Q4
     = Inr (1056 / 10000)"
  by (simp add: calculatePortfolioReturn_def INDIA_2024_Q4_def)

lemma exampleInputs_result:
  "\<exists>res. projectDeterministic exampleInputs INDIA_2024_Q4 = Inr res \<and>
      timeline res = projectTimeline exampleInputs (6 / 100) (7 / 100) (6 / 100) (1056 / 10000) 0 1000000"
proof -
  have v: "validateInputs (sanitizeInputs exampleInputs) = Inr ()"
    by (simp only: exampleInputs_sanitized exampleInputs_valid)
  have a: "assetAllocation exampleInputs = [(''equity-nifty50'', 70), (''debt-govt-10y'', 30)]"
    by (simp add: exampleInputs_def)
  have c: "calculatePortfolioReturn (assetAllocation exampleInputs) INDIA_2024_Q4 = Inr (1056 / 10000)"
    unfolding a by (rule example_return)
  have i: "- 100 \<le> inflation_mean INDIA_2024_Q4" by (simp add: INDIA_2024_Q4_def)
  from projectDeterministic_returns[OF v c i]
  obtain res where r: "projectDeterministic exampleInputs INDIA_2024_Q4 = Inr res" by blast
  from projectDeterministic_timeline[OF r] obtain rate where
    rt: "calculatePortfolioReturn (assetAllocation exampleInputs) INDIA_2024_Q4 = Inr rate"
    and t: "timeline res = projectTimeline exampleInputs (inflation_mean INDIA_2024_Q4 / 100)
         (orDefault (investmentGrowthRate exampleInputs) (inflation_mean INDIA_2024_Q4 / 100 + 1 / 100))
         (orDefault (expenseGrowthRate exampleInputs) (inflation_mean INDIA_2024_Q4 / 100))
         rate 0 (currentSavings exampleInputs)"
    unfolding exampleInputs_sanitized by blast
  from rt c have rate: "rate = 1056 / 10000" by simp
  have g: "orDefault (investmentGrowthRate exampleInputs) d = d" for d
    by (simp add: exampleInputs_def orDefault_def)
  have e: "orDefault (expenseGrowthRate exampleInputs) d = d" for d
    by (simp add: exampleInputs_def orDefault_def)
  have h: "(6 / 100 + 1 / 100 :: real) = 7 / 100" by simp
  have f: "inflation_mean INDIA_2024_Q4 / 100 = 6 / 100" by (simp add: INDIA_2024_Q4_def)
  have s: "currentSavings exampleInputs = 1000000" by (simp add: exampleInputs_def)
  from t have "timeline res = projectTimeline exampleInputs (6 / 100) (7 / 100) (6 / 100) (1056 / 10000) 0 1000000"
    unfolding g e f s rate h .
  with r show ?thesis by blast
qed

lemma exampleInputs_simulation:
  "\<exists>tline. runSingleSimulation exampleGenerator exampleInputs INDIA_2024_Q4 42 = Inr tline
      \<and> map portfolioValue tline = [1419100, 134804371 / 100]"
  apply (simp add: runSingleSimulation_def exampleInputs_def INDIA_2024_Q4_def orDefault_def Let_def)
  apply (simp add: simulateTimeline.simps projectYear_def exampleGenerator_def
                   normalWithParams_def Let_def)
  done

text \<open>
  The clamp after the yearly update. Every \<open>portfolioValue\<close> of the timeline returned by
  the deterministic projector is at least 0, and so is every \<open>portfolioValue\<close> of a
  Monte Carlo path on which the generator's draws are finite, whatever the inputs, the
  assumptions and the seed.
\<close>

theorem clamped_portfolio_nonneg:
  "(projectDeterministic rawInputs assumptions = Inr res
      \<longrightarrow> list_all (\<lambda>y. 0 \<le> portfolioValue y) (timeline res))
   \<and> (runSingleSimulation rng inputs assumptions sd = Inr tline
      \<longrightarrow> list_all (\<lambda>y. 0 \<le> portfolioValue y) tline)"
proof (intro conjI impI)
  assume "projectDeterministic rawInputs assumptions = Inr res"
  from projectDeterministic_timeline[OF this]
  show "list_all (\<lambda>y. 0 \<le> portfolioValue y) (timeline res)"
    using projectTimeline_nonneg by auto
next
  assume "runSingleSimulation rng inputs assumptions sd = Inr tline"
  then show "list_all (\<lambda>y. 0 \<le> portfolioValue y) tline"
    unfolding runSingleSimulation_def Let_def by (rule simulateTimeline_nonneg)
qed

theorem clamped_portfolio_nonneg_example:
  "\<not> isl (projectDeterministic exampleInputs INDIA_2024_Q4)
   \<and> list_all (\<lambda>y. 0 \<le> portfolioValue y)
        (timeline (projr (projectDeterministic exampleInputs INDIA_2024_Q4)))
   \<and> \<not> isl (runSingleSimulation exampleGenerator exampleInputs INDIA_2024_Q4 42)
   \<and> list_all (\<lambda>y. 0 \<le> portfolioValue y)
        (projr (runSingleSimulation exampleGenerator exampleInputs INDIA_2024_Q4 42))"
proof -
  from exampleInputs_result obtain res where
    r: "projectDeterministic exampleInputs INDIA_2024_Q4 = Inr res" by blast
  from exampleInputs_simulation obtain tline where
    t: "runSingleSimulation exampleGenerator exampleInputs INDIA_2024_Q4 42 = Inr tline" by blast
  from clamped_portfolio_nonneg [where rawInputs = exampleInputs
         and assumptions = INDIA_2024_Q4 and res = res and rng = exampleGenerator
         and inputs = exampleInputs and sd = 42 and tline = tline] r t
  show ?thesis by simp
qed

text \<open>
  Claim C2. In every yearly record of the deterministic projector and of a Monte Carlo
  path, \<open>withdrawalRate\<close> is defined exactly when the end-of-year portfolio is positive,
  and then equals the year's withdrawal divided by the portfolio before the withdrawal:
  start-of-year portfolio plus investment return plus contributions.
\<close>

theorem withdrawal_rate_before_withdrawal:
  "(projectDeterministic rawInputs assumptions = Inr res
      \<longrightarrow> withdrawalRatesFromStart (currentSavings (sanitizeInputs rawInputs)) (timeline res))
   \<and> (runSingleSimulation rng inputs assumptions sd = Inr tline
      \<longrightarrow> withdrawalRatesFromStart (currentSavings inputs) tline)"
proof (intro conjI impI)
  assume "projectDeterministic rawInputs assumptions = Inr res"
  from projectDeterministic_timeline[OF this]
  show "withdrawalRatesFromStart (currentSavings (sanitizeInputs rawInputs)) (timeline res)"
    using projectTimeline_rates by auto
next
  assume "runSingleSimulation rng inputs assumptions sd = Inr tline"
  then show "withdrawalRatesFromStart (currentSavings inputs) tline"
    unfolding runSingleSimulation_def Let_def by (rule simulateTimeline_rates)
qed

theorem withdrawal_rate_before_withdrawal_witness:
  "\<not> isl (projectDeterministic exampleInputs INDIA_2024_Q4)
   \<and> withdrawalRatesFromStart 1000000
        (timeline (projr (projectDeterministic exampleInputs INDIA_2024_Q4)))
   \<and> \<not> isl (runSingleSimulation exampleGenerator exampleInputs INDIA_2024_Q4 42)
   \<and> withdrawalRatesFromStart 1000000
        (projr (runSingleSimulation exampleGenerator exampleInputs INDIA_2024_Q4 42))"
proof -
  from exampleInputs_result obtain res where
    r: "projectDeterministic exampleInputs INDIA_2024_Q4 = Inr res" by blast
  from exampleInputs_simulation obtain tline where
    t: "runSingleSimulation exampleGenerator exampleInputs INDIA_2024_Q4 42 = Inr tline" by blast
  have s: "currentSavings exampleInputs = 1000000" by (simp add: exampleInputs_def)
  from withdrawal_rate_before_withdrawal [where rawInputs = exampleInputs
         and assumptions = INDIA_2024_Q4 and res = res and rng = exampleGenerator
         and inputs = exampleInputs and sd = 42 and tline = tline] r t
  show ?thesis by (simp add: exampleInputs_sanitized s)
qed

section \<open>Sanitising before validating\<close>

lemma sanitizeInputs_clamped:
  "sanitizeInputs (rawInputs\<lparr>currentSavings := max 0 (currentSavings rawInputs),
                             monthlyInvestment := max 0 (monthlyInvestment rawInputs),
                             monthlyExpenses := max 0 (monthlyExpenses rawInputs)\<rparr>)
     = sanitizeInputs rawInputs"
  by (simp add: sanitizeInputs_def)

lemma validateInputs_sanitized_money:
  "validateInputs (sanitizeInputs rawInputs) \<noteq> Inl (ValidationError ''currentSavings'' msg)
   \<and> validateInputs (sanitizeInputs rawInputs) \<noteq> Inl (ValidationError ''monthlyInvestment'' msg)
   \<and> validateInputs (sanitizeInputs rawInputs) \<noteq> Inl (ValidationError ''monthlyExpenses'' msg)"
  by (simp add: validateInputs_def sanitizeInputs_def)

lemma projectDeterministic_error:
  assumes "projectDeterministic rawInputs assumptions = Inl (ValidationError f msg)"
  shows "validateInputs (sanitizeInputs rawInputs) = Inl (ValidationError f msg)"
proof (cases "validateInputs (sanitizeInputs rawInputs)")
  case (Inl e)
  then show ?thesis using assms by (simp add: projectDeterministic_def Let_def)
next
  case (Inr u)
  have c: "calculatePortfolioReturn_loop al a acc \<noteq> Inl (ValidationError f msg)" for al a acc
    by (induction al a acc rule: calculatePortfolioReturn_loop.induct) (auto split: option.splits)
  have p: "presentValueAnnuity x y z \<noteq> Inl (ValidationError f msg)" for x y z
    by (simp add: presentValueAnnuity_def)
  from assms Inr show ?thesis
    using c p unfolding projectDeterministic_def Let_def calculatePortfolioReturn_def
    by (auto split: sum.splits)
qed

text \<open>
  Claim C3 (amended). A negative \<open>currentSavings\<close>, \<open>monthlyInvestment\<close> or
  \<open>monthlyExpenses\<close> does not make \<open>projectDeterministic\<close> fail: \<open>sanitizeInputs\<close> clamps
  the three fields to 0 before \<open>validateInputs\<close> runs, so the call returns what it returns
  for the input with each of them replaced by \<open>max 0\<close> of itself, and never a
  \<open>ValidationError\<close> naming one of them. It is \<open>validateInputs\<close> on an input that was
  not sanitised (with ages in range) that raises the \<open>ValidationError\<close> naming a
  negative monetary field.
\<close>

theorem negative_money_is_clamped:
  "projectDeterministic rawInputs assumptions
     = projectDeterministic
         (rawInputs\<lparr>currentSavings := max 0 (currentSavings rawInputs),
                     monthlyInvestment := max 0 (monthlyInvestment rawInputs),
                     monthlyExpenses := max 0 (monthlyExpenses rawInputs)\<rparr>) assumptions
   \<and> projectDeterministic rawInputs assumptions \<noteq> Inl (ValidationError ''currentSavings'' msg)
   \<and> projectDeterministic rawInputs assumptions \<noteq> Inl (ValidationError ''monthlyInvestment'' msg)
   \<and> projectDeterministic rawInputs assumptions \<noteq> Inl (ValidationError ''monthlyExpenses'' msg)
   \<and> (18 \<le> currentAge rawInputs \<and> currentAge rawInputs \<le> 100
        \<and> currentAge rawInputs < retirementAge rawInputs
        \<and> retirementAge rawInputs < lifeExpectancy rawInputs
        \<and> (currentSavings rawInputs < 0 \<or> monthlyInvestment rawInputs < 0
             \<or> monthlyExpenses rawInputs < 0)
      \<longrightarrow> validateInputs rawInputs \<in>
            {Inl (ValidationError ''currentSavings'' ''Cannot be negative''),
             Inl (ValidationError ''monthlyInvestment'' ''Cannot be negative''),
             Inl (ValidationError ''monthlyExpenses'' ''Cannot be negative'')})"
proof (intro conjI impI)
  show "projectDeterministic rawInputs assumptions
     = projectDeterministic
         (rawInputs\<lparr>currentSavings := max 0 (currentSavings rawInputs),
                     monthlyInvestment := max 0 (monthlyInvestment rawInputs),
                     monthlyExpenses := max 0 (monthlyExpenses rawInputs)\<rparr>) assumptions"
    unfolding projectDeterministic_def sanitizeInputs_clamped ..
next
  show "projectDeterministic rawInputs assumptions \<noteq> Inl (ValidationError ''currentSavings'' msg)"
    using projectDeterministic_error validateInputs_sanitized_money by blast
next
  show "projectDeterministic rawInputs assumptions \<noteq> Inl (ValidationError ''monthlyInvestment'' msg)"
    using projectDeterministic_error validateInputs_sanitized_money by blast
next
  show "projectDeterministic rawInputs assumptions \<noteq> Inl (ValidationError ''monthlyExpenses'' msg)"
    using projectDeterministic_error validateInputs_sanitized_money by blast
next
  assume "18 \<le> currentAge rawInputs \<and> currentAge rawInputs \<le> 100
        \<and> currentAge rawInputs < retirementAge rawInputs
        \<and> retirementAge rawInputs < lifeExpectancy rawInputs
        \<and> (currentSavings rawInputs < 0 \<or> monthlyInvestment rawInputs < 0
             \<or> monthlyExpenses rawInputs < 0)"
  then show "validateInputs rawInputs \<in>
            {Inl (ValidationError ''currentSavings'' ''Cannot be negative''),
             Inl (ValidationError ''monthlyInvestment'' ''Cannot be negative''),
             Inl (ValidationError ''monthlyExpenses'' ''Cannot be negative'')}"
    by (auto simp: validateInputs_def)
qed

theorem negative_money_is_clamped_witness:
  "projectDeterministic (exampleInputs\<lparr>currentSavings := - 1000000\<rparr>) INDIA_2024_Q4
     = projectDeterministic (exampleInputs\<lparr>currentSavings := 0\<rparr>) INDIA_2024_Q4
   \<and> projectDeterministic (exampleInputs\<lparr>currentSavings := - 1000000\<rparr>) INDIA_2024_Q4
       \<noteq> Inl (ValidationError ''currentSavings'' ''Cannot be negative'')
   \<and> validateInputs (exampleInputs\<lparr>currentSavings := - 1000000\<rparr>)
       = Inl (ValidationError ''currentSavings'' ''Cannot be negative'')"
proof -
  have e: "(exampleInputs\<lparr>currentSavings := - 1000000\<rparr>)
             \<lparr>currentSavings := max 0 (currentSavings (exampleInputs\<lparr>currentSavings := - 1000000\<rparr>)),
              monthlyInvestment := max 0 (monthlyInvestment (exampleInputs\<lparr>currentSavings := - 1000000\<rparr>)),
              monthlyExpenses := max 0 (monthlyExpenses (exampleInputs\<lparr>currentSavings := - 1000000\<rparr>))\<rparr>
           = exampleInputs\<lparr>currentSavings := 0\<rparr>"
    by (simp add: exampleInputs_def)
  have v: "validateInputs (exampleInputs\<lparr>currentSavings := - 1000000\<rparr>)
       = Inl (ValidationError ''currentSavings'' ''Cannot be negative'')"
    by (simp add: validateInputs_def exampleInputs_def)
  note c = negative_money_is_clamped [of "exampleInputs\<lparr>currentSavings := - 1000000\<rparr>"
        INDIA_2024_Q4 "''Cannot be negative''", unfolded e]
  from c have a: "projectDeterministic (exampleInputs\<lparr>currentSavings := - 1000000\<rparr>) INDIA_2024_Q4
     = projectDeterministic (exampleInputs\<lparr>currentSavings := 0\<rparr>) INDIA_2024_Q4" by blast
  from c have b: "projectDeterministic (exampleInputs\<lparr>currentSavings := - 1000000\<rparr>) INDIA_2024_Q4
       \<noteq> Inl (ValidationError ''currentSavings'' ''Cannot be negative'')" by blast
  from a b v show ?thesis by blast
qed

lemma negative_savings_returns:
  "\<exists>res. projectDeterministic (exampleInputs\<lparr>currentSavings := - 1000000\<rparr>) INDIA_2024_Q4 = Inr res"
proof -
  have v: "validateInputs (sanitizeInputs (exampleInputs\<lparr>currentSavings := - 1000000\<rparr>)) = Inr ()"
    by (simp add: validateInputs_def sanitizeInputs_def exampleInputs_def)
  have c: "calculatePortfolioReturn (assetAllocation (exampleInputs\<lparr>currentSavings := - 1000000\<rparr>))
             INDIA_2024_Q4 = Inr (1056 / 10000)"
    using example_return by (simp add: exampleInputs_def)
  have i: "- 100 \<le> inflation_mean INDIA_2024_Q4" by (simp add: INDIA_2024_Q4_def)
  from projectDeterministic_returns[OF v c i] show ?thesis .
qed

text \<open>
  Claim C3 as stated fails: with \<open>currentSavings = -1000000\<close> the projector raises
  nothing and returns a result.
\<close>

theorem negative_savings_counterexample:
  "\<not> isl (projectDeterministic (exampleInputs\<lparr>currentSavings := - 1000000\<rparr>) INDIA_2024_Q4)"
  using negative_savings_returns by auto

section \<open>Growth-rate and seed defaults\<close>

lemma exampleAllocation_result:
  assumes s: "sanitizeInputs i = i" and v: "validateInputs i = Inr ()"
    and a: "assetAllocation i = [(''equity-nifty50'', 70), (''debt-govt-10y'', 30)]"
  shows "\<exists>res. projectDeterministic i INDIA_2024_Q4 = Inr res \<and>
      timeline res = projectTimeline i (6 / 100) (orDefault (investmentGrowthRate i) (7 / 100))
         (orDefault (expenseGrowthRate i) (6 / 100)) (1056 / 10000) 0 (currentSavings i)"
proof -
  have v': "validateInputs (sanitizeInputs i) = Inr ()" by (simp only: s v)
  have c: "calculatePortfolioReturn (assetAllocation i) INDIA_2024_Q4 = Inr (1056 / 10000)"
    unfolding a by (rule example_return)
  have m: "- 100 \<le> inflation_mean INDIA_2024_Q4" by (simp add: INDIA_2024_Q4_def)
  from projectDeterministic_returns[OF v' c m]
  obtain res where r: "projectDeterministic i INDIA_2024_Q4 = Inr res" by blast
  from projectDeterministic_timeline[OF r] obtain rate where
    rt: "calculatePortfolioReturn (assetAllocation i) INDIA_2024_Q4 = Inr rate"
    and t: "timeline res = projectTimeline i (inflation_mean INDIA_2024_Q4 / 100)
         (orDefault (investmentGrowthRate i) (inflation_mean INDIA_2024_Q4 / 100 + 1 / 100))
         (orDefault (expenseGrowthRate i) (inflation_mean INDIA_2024_Q4 / 100))
         rate 0 (currentSavings i)"
    unfolding s by blast
  from rt c have rate: "rate = 1056 / 10000" by simp
  have f: "inflation_mean INDIA_2024_Q4 / 100 = 6 / 100" by (simp add: INDIA_2024_Q4_def)
  have h: "(6 / 100 + 1 / 100 :: real) = 7 / 100" by simp
  from t have "timeline res = projectTimeline i (6 / 100) (orDefault (investmentGrowthRate i) (7 / 100))
         (orDefault (expenseGrowthRate i) (6 / 100)) (1056 / 10000) 0 (currentSavings i)"
    unfolding f rate h .
  with r show ?thesis by blast
qed

text \<open>
  Claim C4 against the code. With \<open>expenseGrowthRate\<close> explicitly 0 the projector takes
  \<open>inputs.expenseGrowthRate || inflationRate\<close>, where 0 is falsy: on the India bundle
  (inflation 6%) and monthly expenses of 50000 the expenses of the two years are 600000
  and 636000, not the constant 600000 of the claim.
\<close>

theorem explicit_zero_expense_growth_inflated:
  "\<not> isl (projectDeterministic (exampleInputs\<lparr>expenseGrowthRate := Some 0\<rparr>) INDIA_2024_Q4)
   \<and> map expenses (timeline (projr
        (projectDeterministic (exampleInputs\<lparr>expenseGrowthRate := Some 0\<rparr>) INDIA_2024_Q4)))
       = [600000, 636000]"
proof -
  let ?i = "exampleInputs\<lparr>expenseGrowthRate := Some 0\<rparr>"
  have s: "sanitizeInputs ?i = ?i" by (simp add: sanitizeInputs_def exampleInputs_def)
  have v: "validateInputs ?i = Inr ()" by (simp add: validateInputs_def exampleInputs_def)
  have a: "assetAllocation ?i = [(''equity-nifty50'', 70), (''debt-govt-10y'', 30)]"
    by (simp add: exampleInputs_def)
  from exampleAllocation_result[OF s v a] obtain res where
    r: "projectDeterministic ?i INDIA_2024_Q4 = Inr res"
    and t: "timeline res = projectTimeline ?i (6 / 100) (orDefault (investmentGrowthRate ?i) (7 / 100))
         (orDefault (expenseGrowthRate ?i) (6 / 100)) (1056 / 10000) 0 (currentSavings ?i)"
    by blast
  have "map expenses (timeline res) = [600000, 636000]"
    unfolding t
    by (simp add: projectTimeline.simps projectYear_def exampleInputs_def orDefault_def Let_def)
  with r show ?thesis by simp
qed

lemma runSimulations_seed:
  "orDefault (seed c1) 42 = orDefault (seed c2) 42
   \<Longrightarrow> runSimulations rng inputs assumptions c1 sims = runSimulations rng inputs assumptions c2 sims"
  by (induction sims) (auto simp: Let_def split: sum.splits)

text \<open>
  Claim C10. For every generator, input, bundle and configuration, a Monte Carlo run with
  base seed 0 returns exactly what the run with base seed 42 returns, which is also what
  the run without a seed returns: \<open>config.seed || 42\<close> reads 0 as absent.
\<close>

theorem zero_seed_is_default_seed:
  "runMonteCarlo rng rawInputs assumptions (config\<lparr>seed := Some 0\<rparr>)
     = runMonteCarlo rng rawInputs assumptions (config\<lparr>seed := Some 42\<rparr>)
   \<and> runMonteCarlo rng rawInputs assumptions (config\<lparr>seed := Some 0\<rparr>)
     = runMonteCarlo rng rawInputs assumptions (config\<lparr>seed := None\<rparr>)"
proof -
  have a: "orDefault (seed (config\<lparr>seed := Some 0\<rparr>)) 42 = orDefault (seed (config\<lparr>seed := None\<rparr>)) 42"
    by (simp add: orDefault_def)
  have b: "orDefault (seed (config\<lparr>seed := Some 42\<rparr>)) 42 = orDefault (seed (config\<lparr>seed := None\<rparr>)) 42"
    by (simp add: orDefault_def)
  have e0: "runMonteCarlo rng rawInputs assumptions (config\<lparr>seed := Some 0\<rparr>)
     = runMonteCarlo rng rawInputs assumptions (config\<lparr>seed := None\<rparr>)"
    unfolding runMonteCarlo_def Let_def
    by (simp add: runSimulations_seed[OF a] cong: sum.case_cong)
  have e42: "runMonteCarlo rng rawInputs assumptions (config\<lparr>seed := Some 42\<rparr>)
     = runMonteCarlo rng rawInputs assumptions (config\<lparr>seed := None\<rparr>)"
    unfolding runMonteCarlo_def Let_def
    by (simp add: runSimulations_seed[OF b] cong: sum.case_cong)
  from e0 e42 show ?thesis by simp
qed

theorem zero_seed_is_default_seed_witness:
  "runMonteCarlo exampleGenerator exampleInputs INDIA_2024_Q4 \<lparr>numSimulations = 2, seed = Some 0\<rparr>
     = runMonteCarlo exampleGenerator exampleInputs INDIA_2024_Q4 \<lparr>numSimulations = 2, seed = Some 42\<rparr>"
  using zero_seed_is_default_seed [of exampleGenerator exampleInputs INDIA_2024_Q4
          "\<lparr>numSimulations = 2, seed = None\<rparr>"]
  by simp


section \<open>Properties of the Monte Carlo aggregation\<close>

lemma length_insertBy [simp]: "length (insertBy cmp x ys) = Suc (length ys)"
  by (induction ys) auto

lemma length_sortBy [simp]: "length (sortBy cmp xs) = length xs"
  unfolding sortBy_def by (induction xs) auto

lemma map_insertBy_key:
  "map f (insertBy (\<lambda>a b. f a - f b) x ys) = insort (f x :: real) (map f ys)"
  by (induction ys) auto

lemma map_sortBy_key:
  "map f (sortBy (\<lambda>a b. f a - f b) xs) = sort (map f xs :: real list)"
  unfolding sortBy_def sort_key_def
  by (induction xs) (auto simp: map_insertBy_key)

lemma percentile_index_in_range:
  assumes "0 < n" "0 \<le> q" "q < 1"
  shows "nat \<lfloor>real n * q\<rfloor> < n"
proof -
  have "real n * q < real n" using assms by simp
  then have "\<lfloor>real n * q\<rfloor> < int n" by linarith
  moreover have "0 \<le> \<lfloor>real n * q\<rfloor>" using assms by simp
  ultimately show ?thesis by linarith
qed

lemma half_index: "nat \<lfloor>real n * (50 / 100)\<rfloor> = n div 2"
proof -
  have "real n * (50 / 100) = real n / 2" by simp
  moreover have "\<lfloor>real n / 2\<rfloor> = int n div 2"
    by (metis floor_divide_of_nat_eq of_nat_numeral of_int_of_nat_eq floor_of_int zdiv_int)
  ultimately show ?thesis by (simp add: nat_div_distrib)
qed

lemma median_odd:
  assumes "odd (length xs)"
  shows "median xs = sort xs ! (length xs div 2)"
  using assms unfolding median_def Let_def
  by (auto simp: sortBy_diff odd_iff_mod_2_eq_one)

lemma median_even:
  assumes "even (length xs)" "xs \<noteq> []"
  shows "median xs = (sort xs ! (length xs div 2 - 1) + sort xs ! (length xs div 2)) / 2"
  using assms unfolding median_def Let_def
  by (auto simp: sortBy_diff)

lemma percentile_50_median:
  assumes ne: "(xs :: real list) \<noteq> []"
  shows "percentile xs 50 = Inr (median xs)"
proof (cases "even (length xs)")
  case True
  then obtain m where m: "length xs = 2 * m" by (auto elim: evenE)
  with ne have m0: "0 < m" by (cases m) auto
  then obtain k where k: "m = Suc k" by (cases m) auto
  have kl: "Suc k < length xs" using m k by simp
  have "100 * (real k + 1 / 2) / (real (length xs) - 1) = 50"
    using m k by (simp add: field_simps)
  with percentile_interp[OF kl, of "1 / 2"]
  have "percentile xs 50 = Inr (sort xs ! k + 1 / 2 * (sort xs ! Suc k - sort xs ! k))" by simp
  moreover have "median xs = (sort xs ! k + sort xs ! Suc k) / 2"
    using median_even[OF True ne] m k by simp
  ultimately show ?thesis by (simp add: field_simps)
next
  case False
  then obtain k where k: "length xs = 2 * k + 1" by (auto elim: oddE)
  have med: "median xs = sort xs ! k" using median_odd[OF False] k by simp
  have idx: "(50 / 100) * (real (length xs) - 1) = real k" using k by simp
  have "percentile xs 50 = Inr (sort xs ! k)"
    unfolding percentile_in_range[OF ne, of 50, simplified] 
    using idx by simp
  with med show ?thesis by simp
qed

lemma aggregateResults_facts:
  assumes "aggregateResults simulations inputs = Inr mc"
  shows "simulations \<noteq> []"
    and "terminalValueDistribution_values mc = map terminalValue simulations"
    and "medianOutcome mc = sort (map terminalValue simulations) ! (length simulations div 2)"
    and "terminalValueDistribution_median mc = median (map terminalValue simulations)"
proof -
  show ne: "simulations \<noteq> []" using assms by (auto simp: aggregateResults_def Let_def)
  then have p: "percentile (map terminalValue simulations) 50
               = Inr (median (map terminalValue simulations))"
    by (simp add: percentile_50_median)
  have lt: "length simulations div 2 < length simulations" using ne by (cases simulations) auto
  from assms ne p have mc: "mc = \<lparr> successProbability =
         real (length (filter (\<lambda>sim. sim_timeline sim \<noteq> []
                                 \<and> portfolioValue (last (sim_timeline sim)) > 0) simulations))
         / real (length simulations),
       medianOutcome = terminalValue (sortBy (\<lambda>a b. terminalValue a - terminalValue b) simulations ! (length simulations div 2)),
       percentiles_p10 = percentiles_p10 mc, percentiles_p25 = percentiles_p25 mc,
       percentiles_p50 = percentiles_p50 mc, percentiles_p75 = percentiles_p75 mc,
       percentiles_p90 = percentiles_p90 mc,
       terminalValueDistribution_mean = terminalValueDistribution_mean mc,
       terminalValueDistribution_median = median (map terminalValue simulations),
       terminalValueDistribution_std = terminalValueDistribution_std mc,
       terminalValueDistribution_values = map terminalValue simulations,
       shortfallRisk_probability = shortfallRisk_probability mc,
       shortfallRisk_averageShortfall = shortfallRisk_averageShortfall mc,
       shortfallRisk_worstCase = shortfallRisk_worstCase mc \<rparr>"
    unfolding aggregateResults_def Let_def half_index by auto
  show "terminalValueDistribution_values mc = map terminalValue simulations"
    by (subst mc) simp
  show "terminalValueDistribution_median mc = median (map terminalValue simulations)"
    by (subst mc) simp
  have "medianOutcome mc = terminalValue (sortBy (\<lambda>a b. terminalValue a - terminalValue b) simulations ! (length simulations div 2))"
    by (subst mc) simp
  also have "\<dots> = map terminalValue (sortBy (\<lambda>a b. terminalValue a - terminalValue b) simulations) ! (length simulations div 2)"
    using lt by simp
  finally show "medianOutcome mc = sort (map terminalValue simulations) ! (length simulations div 2)"
    unfolding map_sortBy_key .
qed

lemma runSimulations_length:
  "runSimulations rng inputs assumptions config sims = Inr paths \<Longrightarrow> length paths = length sims"
  by (induction sims arbitrary: paths) (auto simp: Let_def split: sum.splits)

lemma runMonteCarlo_aggregate:
  assumes "runMonteCarlo rng rawInputs assumptions config = Inr mc"
  shows "\<exists>simulations.
           runSimulations rng (sanitizeInputs rawInputs) assumptions config
              [0 ..< nat \<lceil>numSimulations config\<rceil>] = Inr simulations
         \<and> aggregateResults simulations (sanitizeInputs rawInputs) = Inr mc"
  using assms unfolding runMonteCarlo_def Let_def by (auto split: sum.splits)

lemma runMonteCarlo_median_facts:
  assumes "runMonteCarlo rng rawInputs assumptions config = Inr mc"
  shows "length (terminalValueDistribution_values mc) = nat \<lceil>numSimulations config\<rceil>"
    and "terminalValueDistribution_values mc \<noteq> []"
    and "medianOutcome mc = sort (terminalValueDistribution_values mc)
                              ! (length (terminalValueDistribution_values mc) div 2)"
    and "terminalValueDistribution_median mc = median (terminalValueDistribution_values mc)"
proof -
  from runMonteCarlo_aggregate[OF assms] obtain simulations where
    r: "runSimulations rng (sanitizeInputs rawInputs) assumptions config
              [0 ..< nat \<lceil>numSimulations config\<rceil>] = Inr simulations"
    and a: "aggregateResults simulations (sanitizeInputs rawInputs) = Inr mc" by blast
  note f = aggregateResults_facts[OF a]
  show "length (terminalValueDistribution_values mc) = nat \<lceil>numSimulations config\<rceil>"
    using runSimulations_length[OF r] f(2) by simp
  show "terminalValueDistribution_values mc \<noteq> []" using f(1,2) by simp
  show "medianOutcome mc = sort (terminalValueDistribution_values mc)
                              ! (length (terminalValueDistribution_values mc) div 2)"
    using f(2,3) by simp
  show "terminalValueDistribution_median mc = median (terminalValueDistribution_values mc)"
    using f(2,4) by simp
qed

lemma example_validated:
  "sanitizeInputs exampleInputs = exampleInputs \<and> validateInputs exampleInputs = Inr ()"
  by (simp add: exampleInputs_sanitized exampleInputs_valid)


section \<open>Properties of the generator\<close>

lemma ulp_below_2_53: "m < 2 ^ 53 \<Longrightarrow> ulp m = 1"
  by (simp add: ulp.simps)

text \<open>An integer of at most 53 bits is a double: rounding leaves it alone.\<close>

lemma roundToDouble_exact:
  assumes "\<bar>n\<bar> < 2 ^ 53"
  shows "roundToDouble n = n"
proof -
  have "nat \<bar>n\<bar> < 2 ^ 53" using assms by simp
  then have "ulp (nat \<bar>n\<bar>) = 1" by (rule ulp_below_2_53)
  then show ?thesis
    unfolding roundToDouble_def Let_def by (simp add: sgn_if)
qed

text \<open>
  The states that follow the seed 2088216195. The product 2088216195 \<sdot> 1103515245 lies
  between \<open>2^60\<close> and \<open>2^61\<close>, where doubles are 256 apart; the rounded sum is a multiple
  of \<open>2^31\<close>.
\<close>

lemma next_2088216195: "SeededRandom_next 2088216195 = 0"
  unfolding SeededRandom_next_def roundToDouble_def Let_def
  by (simp add: ulp.simps)

lemma next_0: "SeededRandom_next 0 = 12345"
  unfolding SeededRandom_next_def roundToDouble_def Let_def
  by (simp add: ulp.simps)

lemma next_12345: "SeededRandom_next 12345 = 1406932606"
  unfolding SeededRandom_next_def roundToDouble_def Let_def
  by (simp add: ulp.simps)

lemma next_1406932606: "SeededRandom_next 1406932606 = 654583808"
  unfolding SeededRandom_next_def roundToDouble_def Let_def
  by (simp add: ulp.simps)

lemma cos_second_uniform: "0 < cos (2 * pi * (12345 / 2147483647))"
proof (rule cos_gt_zero_pi)
  have "0 < pi" by simp
  have "- (pi / 2) < 0" by simp
  also have "0 \<le> 2 * pi * (12345 / 2147483647)" by simp
  finally show "- (pi / 2) < 2 * pi * (12345 / 2147483647)" .
  have "2 * pi * (12345 / 2147483647) = pi * (24690 / 2147483647)" by simp
  also have "\<dots> < pi * (1 / 2)" using \<open>0 < pi\<close> by (intro mult_strict_left_mono) simp_all
  finally show "2 * pi * (12345 / 2147483647) < pi / 2" by simp
qed

lemma normal_2088216195: "SeededRandom_normal 2088216195 = (PosInfinity, 12345)"
  unfolding SeededRandom_normal_def Let_def next_2088216195 next_0
  using cos_second_uniform by simp

lemma normal_12345: "\<exists>x. SeededRandom_normal 12345 = (Finite x, 654583808)"
  unfolding SeededRandom_normal_def Let_def next_12345 next_1406932606 by simp

lemma drawPortfolioReturn_returns:
  "list_all (\<lambda>(w, p). p \<noteq> None) assetParams \<Longrightarrow>
     \<exists>r s'. drawPortfolioReturn assetParams acc s = Inr (r, s')"
proof (induction assetParams arbitrary: acc s)
  case Nil
  then show ?case by simp
next
  case (Cons a rest)
  obtain w p where a: "a = (w, p)" by (cases a)
  with Cons.prems obtain q where p: "p = Some q" by auto
  obtain z s1 where n: "SeededRandom_normal s = (z, s1)" by (cases "SeededRandom_normal s")
  from Cons.prems a have "list_all (\<lambda>(w, p). p \<noteq> None) rest" by simp
  from Cons.IH[OF this] show ?case
    by (simp add: a p n Let_def)
qed

text \<open>The net cash flow of a year is the same at every return and every portfolio.\<close>

lemma projectYear_netCashflow:
  "netCashflow (projectYear inputs inflationRate investmentGrowth expenseGrowth rate yr portfolio)
     = netCashflow (projectYear inputs inflationRate investmentGrowth expenseGrowth 0 yr 0)"
  by (simp add: projectYear_def Let_def)

text \<open>
  Once the portfolio is \<open>NaN\<close> it stays \<open>NaN\<close>: the clamp \<open>portfolio < 0\<close> and the early
  exit \<open>portfolio === 0\<close> are both false on it.
\<close>

lemma simulatePortfolio_NaN:
  assumes "list_all (\<lambda>(w, p). p \<noteq> None) assetParams"
  shows "\<exists>vs. simulatePortfolio inputs assetParams infl ig eg yr NaN s = Inr vs
           \<and> list_all (\<lambda>v. v = NaN) vs"
proof (induction "nat \<lceil>lifeExpectancy inputs - currentAge inputs\<rceil> - yr" arbitrary: yr s)
  case 0
  then have "\<not> real yr < lifeExpectancy inputs - currentAge inputs" by linarith
  then show ?case by (subst simulatePortfolio.simps) simp
next
  case (Suc k)
  show ?case
  proof (cases "real yr < lifeExpectancy inputs - currentAge inputs")
    case False
    then show ?thesis by (subst simulatePortfolio.simps) simp
  next
    case True
    obtain r s' where r: "drawPortfolioReturn assetParams (Finite 0) s = Inr (r, s')"
      using drawPortfolioReturn_returns[OF assms] by blast
    have "k = nat \<lceil>lifeExpectancy inputs - currentAge inputs\<rceil> - Suc yr"
      using Suc.hyps(2) by simp
    from Suc.hyps(1)[OF this] obtain vs where
      vs: "simulatePortfolio inputs assetParams infl ig eg (Suc yr) NaN s' = Inr vs"
          "list_all (\<lambda>v. v = NaN) vs" by blast
    show ?thesis
      by (subst simulatePortfolio.simps) (simp add: True r vs Let_def)
  qed
qed

lemma simulatePortfolio_last_year_NaN:
  assumes "drawPortfolioReturn assetParams (Finite 0) s = Inr (r, s')"
    and "real yr < lifeExpectancy inputs - currentAge inputs"
    and "\<not> real (Suc yr) < lifeExpectancy inputs - currentAge inputs"
  shows "simulatePortfolio inputs assetParams infl ig eg yr NaN s = Inr [NaN]"
proof -
  have "simulatePortfolio inputs assetParams infl ig eg (Suc yr) NaN s' = Inr []"
    using assms(3) by (subst simulatePortfolio.simps) simp
  then show ?thesis
    using assms(1,2) by (subst simulatePortfolio.simps) (simp add: Let_def)
qed

text \<open>An infinite return on a portfolio of 0 is \<open>0 * Infinity\<close>, which is \<open>NaN\<close>.\<close>

lemma simulatePortfolio_infinite_return:
  assumes "drawPortfolioReturn assetParams (Finite 0) s = Inr (PosInfinity, s')"
    and "real yr < lifeExpectancy inputs - currentAge inputs"
    and "simulatePortfolio inputs assetParams infl ig eg (Suc yr) NaN s' = Inr rest"
  shows "simulatePortfolio inputs assetParams infl ig eg yr (Finite 0) s = Inr (NaN # rest)"
  using assms by (subst simulatePortfolio.simps) (simp add: Let_def)

lemma noSavings_assetParams:
  "map (\<lambda>(assetId, weight). (weight / 100, assetClasses INDIA_2024_Q4 assetId))
       (assetAllocation (exampleInputs\<lparr>currentSavings := 0\<rparr>))
   = [(7 / 10, assetClasses INDIA_2024_Q4 ''equity-nifty50''),
      (3 / 10, assetClasses INDIA_2024_Q4 ''debt-govt-10y'')]"
  by (simp add: exampleInputs_def)

lemma assetParams_known:
  "list_all (\<lambda>(w, p). p \<noteq> None)
     [(7 / 10, assetClasses INDIA_2024_Q4 ''equity-nifty50''),
      (3 / 10 :: real, assetClasses INDIA_2024_Q4 ''debt-govt-10y'')]"
  by (simp add: INDIA_2024_Q4_def)

lemma first_year_return:
  "drawPortfolioReturn [(7 / 10, assetClasses INDIA_2024_Q4 ''equity-nifty50''),
                        (3 / 10, assetClasses INDIA_2024_Q4 ''debt-govt-10y'')]
       (Finite 0) 2088216195 = Inr (PosInfinity, 654583808)"
proof -
  obtain x where n: "SeededRandom_normal 12345 = (Finite x, 654583808)"
    using normal_12345 by blast
  show ?thesis
    by (simp add: INDIA_2024_Q4_def normal_2088216195 n Let_def)
qed

lemma noSavings_portfolio:
  "simulatedPortfolioValues (exampleInputs\<lparr>currentSavings := 0\<rparr>) INDIA_2024_Q4 2088216195
     = Inr [NaN, NaN]"
proof -
  let ?ap = "[(7 / 10, assetClasses INDIA_2024_Q4 ''equity-nifty50''),
              (3 / 10, assetClasses INDIA_2024_Q4 ''debt-govt-10y'')]"
  let ?inp = "exampleInputs\<lparr>currentSavings := 0\<rparr>"
  obtain r s' where r: "drawPortfolioReturn ?ap (Finite 0) 654583808 = Inr (r, s')"
    using drawPortfolioReturn_returns[OF assetParams_known] by blast
  have a0: "real 0 < lifeExpectancy ?inp - currentAge ?inp"
    and a1: "real (Suc 0) < lifeExpectancy ?inp - currentAge ?inp"
    and a2: "\<not> real (Suc (Suc 0)) < lifeExpectancy ?inp - currentAge ?inp"
    by (simp_all add: exampleInputs_def)
  have cs: "currentSavings ?inp = 0" by simp
  show ?thesis
    unfolding simulatedPortfolioValues_def Let_def noSavings_assetParams cs
    by (rule simulatePortfolio_infinite_return
              [OF first_year_return a0 simulatePortfolio_last_year_NaN[OF r a1 a2]])
qed

text \<open>
  Claim C9. Every \<open>portfolioValue\<close> of a timeline is at least 0, for every accepted
  input, bundle and seed. Against it: the baseline household of the test suite with no
  savings yet, on the India 2024-Q4 bundle, is an accepted input; at the seed
  2088216195 the generator's first uniform number is 0, its first normal draw is
  \<open>Infinity\<close>, and the path's portfolio is \<open>NaN\<close> in every year, which is not at least 0.
\<close>

theorem infinite_draw_makes_portfolio_NaN:
  "sanitizeInputs (exampleInputs\<lparr>currentSavings := 0\<rparr>) = exampleInputs\<lparr>currentSavings := 0\<rparr>
   \<and> validateInputs (exampleInputs\<lparr>currentSavings := 0\<rparr>) = Inr ()
   \<and> orDefault (Some 2088216195) 42 + real 0 = 2088216195
   \<and> SeededRandom_next 2088216195 = 0
   \<and> SeededRandom_normal 2088216195 = (PosInfinity, 12345)
   \<and> simulatedPortfolioValues (exampleInputs\<lparr>currentSavings := 0\<rparr>) INDIA_2024_Q4 2088216195
       = Inr [NaN, NaN]"
proof (intro conjI)
  show "sanitizeInputs (exampleInputs\<lparr>currentSavings := 0\<rparr>)
          = exampleInputs\<lparr>currentSavings := 0\<rparr>"
    by (simp add: sanitizeInputs_def exampleInputs_def)
  show "validateInputs (exampleInputs\<lparr>currentSavings := 0\<rparr>) = Inr ()"
    by (simp add: validateInputs_def exampleInputs_def)
  show "orDefault (Some 2088216195) 42 + real 0 = 2088216195"
    by (simp add: orDefault_def)
  show "SeededRandom_next 2088216195 = 0" by (rule next_2088216195)
  show "SeededRandom_normal 2088216195 = (PosInfinity, 12345)" by (rule normal_2088216195)
  show "simulatedPortfolioValues (exampleInputs\<lparr>currentSavings := 0\<rparr>) INDIA_2024_Q4 2088216195
          = Inr [NaN, NaN]"
    by (rule noSavings_portfolio)
qed


section \<open>Properties of a run under the generator\<close>

text \<open>
  The sign of a finite draw is the sign of \<open>cos (2 \<pi> u2)\<close>, which the quarter of the
  unit interval that holds \<open>u2\<close> decides.
\<close>

lemma cos_first_quarter: "0 \<le> u \<Longrightarrow> u < 1 / 4 \<Longrightarrow> 0 < cos (2 * pi * u)"
proof (rule cos_gt_zero_pi)
  assume u: "0 \<le> u" "u < 1 / 4"
  have "- (pi / 2) < 0" by simp
  also have "0 \<le> 2 * pi * u" using u by simp
  finally show "- (pi / 2) < 2 * pi * u" .
  have "2 * pi * u < 2 * pi * (1 / 4)" using u by (intro mult_strict_left_mono) simp_all
  then show "2 * pi * u < pi / 2" by simp
qed

lemma cos_last_quarter: "3 / 4 < u \<Longrightarrow> u \<le> 1 \<Longrightarrow> 0 < cos (2 * pi * u)"
proof -
  assume u: "3 / 4 < u" "u \<le> 1"
  have "0 < cos (2 * pi * (1 - u))"
    using u by (intro cos_first_quarter) simp_all
  moreover have "cos (2 * pi * (1 - u)) = cos (2 * pi - 2 * pi * u)" by (simp add: algebra_simps)
  moreover have "cos (2 * pi - 2 * pi * u) = cos (2 * pi * u)" by (rule cos_2pi_minus)
  ultimately show ?thesis by simp
qed

lemma cos_middle: "1 / 4 < u \<Longrightarrow> u < 3 / 4 \<Longrightarrow> cos (2 * pi * u) < 0"
proof -
  assume u: "1 / 4 < u" "u < 3 / 4"
  let ?y = "2 * pi * u - pi"
  have "2 * pi * (1 / 4) < 2 * pi * u" using u by (intro mult_strict_left_mono) simp_all
  moreover have "2 * pi * (1 / 4) = pi / 2" by simp
  ultimately have a: "- (pi / 2) < ?y" by linarith
  have "2 * pi * u < 2 * pi * (3 / 4)" using u by (intro mult_strict_left_mono) simp_all
  moreover have "2 * pi * (3 / 4) = pi + pi / 2" by simp
  ultimately have b: "?y < pi / 2" by linarith
  have "0 < cos ?y" by (rule cos_gt_zero_pi[OF a b])
  moreover have "cos (?y + pi) = - cos ?y" by (rule cos_periodic_pi)
  moreover have "?y + pi = 2 * pi * u" by simp
  ultimately show ?thesis by simp
qed

lemma normal_positive:
  assumes n1: "SeededRandom_next s = s1" and n2: "SeededRandom_next s1 = s2"
    and s1: "0 < s1" "s1 < 2147483647"
    and s2: "0 \<le> s2" "s2 \<le> 2147483647"
    and q: "4 * s2 < 2147483647 \<or> 3 * 2147483647 < 4 * s2"
  shows "\<exists>z. 0 < z \<and> SeededRandom_normal s = (Finite z, s2)"
proof -
  let ?u1 = "real_of_int s1 / 2147483647"
  let ?u2 = "real_of_int s2 / 2147483647"
  have u1: "0 < ?u1" "?u1 < 1" using s1 by simp_all
  have "ln ?u1 < 0" using u1 by simp
  then have r: "0 < sqrt (- 2 * ln ?u1)" by simp
  have u2: "0 \<le> ?u2" "?u2 \<le> 1" using s2 by simp_all
  from q have "?u2 < 1 / 4 \<or> 3 / 4 < ?u2"
  proof
    assume "4 * s2 < 2147483647"
    then have "real_of_int (4 * s2) < real_of_int 2147483647" by (simp only: of_int_less_iff)
    then show ?thesis by simp
  next
    assume "3 * 2147483647 < 4 * s2"
    then have "real_of_int (3 * 2147483647) < real_of_int (4 * s2)" by (simp only: of_int_less_iff)
    then show ?thesis by simp
  qed
  then have c: "0 < cos (2 * pi * ?u2)"
    using u2 cos_first_quarter cos_last_quarter by blast
  have "0 < sqrt (- 2 * ln ?u1) * cos (2 * pi * ?u2)" using r c by simp
  moreover have "SeededRandom_normal s = (Finite (sqrt (- 2 * ln ?u1) * cos (2 * pi * ?u2)), s2)"
    unfolding SeededRandom_normal_def Let_def n1 n2 using u1 by simp
  ultimately show ?thesis by blast
qed

lemma normal_negative:
  assumes n1: "SeededRandom_next s = s1" and n2: "SeededRandom_next s1 = s2"
    and s1: "0 < s1" "s1 < 2147483647"
    and q: "2147483647 < 4 * s2" "4 * s2 < 3 * 2147483647"
  shows "\<exists>z. z < 0 \<and> SeededRandom_normal s = (Finite z, s2)"
proof -
  let ?u1 = "real_of_int s1 / 2147483647"
  let ?u2 = "real_of_int s2 / 2147483647"
  have u1: "0 < ?u1" "?u1 < 1" using s1 by simp_all
  have "ln ?u1 < 0" using u1 by simp
  then have r: "0 < sqrt (- 2 * ln ?u1)" by simp
  have "real_of_int 2147483647 < real_of_int (4 * s2)" using q(1) by (simp only: of_int_less_iff)
  then have a: "1 / 4 < ?u2" by simp
  have "real_of_int (4 * s2) < real_of_int (3 * 2147483647)" using q(2) by (simp only: of_int_less_iff)
  then have b: "?u2 < 3 / 4" by simp
  have c: "cos (2 * pi * ?u2) < 0" by (rule cos_middle[OF a b])
  have "sqrt (- 2 * ln ?u1) * cos (2 * pi * ?u2) < 0" using r c by (simp add: mult_pos_neg)
  moreover have "SeededRandom_normal s = (Finite (sqrt (- 2 * ln ?u1) * cos (2 * pi * ?u2)), s2)"
    unfolding SeededRandom_normal_def Let_def n1 n2 using u1 by simp
  ultimately show ?thesis by blast
qed

lemma next_66_1: "SeededRandom_next 66 = 1965058131"
  unfolding SeededRandom_next_def roundToDouble_def Let_def
  by (simp add: ulp.simps)

lemma next_66_2: "SeededRandom_next 1965058131 = 29877504"
  unfolding SeededRandom_next_def roundToDouble_def Let_def
  by (simp add: ulp.simps)

lemma next_66_3: "SeededRandom_next 29877504 = 1206038840"
  unfolding SeededRandom_next_def roundToDouble_def Let_def
  by (simp add: ulp.simps)

lemma next_66_4: "SeededRandom_next 1206038840 = 1993651456"
  unfolding SeededRandom_next_def roundToDouble_def Let_def
  by (simp add: ulp.simps)

lemma next_66_5: "SeededRandom_next 1993651456 = 1706508544"
  unfolding SeededRandom_next_def roundToDouble_def Let_def
  by (simp add: ulp.simps)

lemma next_66_6: "SeededRandom_next 1706508544 = 1792335104"
  unfolding SeededRandom_next_def roundToDouble_def Let_def
  by (simp add: ulp.simps)

lemma next_66_7: "SeededRandom_next 1792335104 = 1173899520"
  unfolding SeededRandom_next_def roundToDouble_def Let_def
  by (simp add: ulp.simps)

lemma next_66_8: "SeededRandom_next 1173899520 = 1727350016"
  unfolding SeededRandom_next_def roundToDouble_def Let_def
  by (simp add: ulp.simps)

lemma normal_66_1: "\<exists>z. 0 < z \<and> SeededRandom_normal 66 = (Finite z, 29877504)"
  by (rule normal_positive[OF next_66_1 next_66_2]) simp_all

lemma normal_66_2: "\<exists>z. 0 < z \<and> SeededRandom_normal 29877504 = (Finite z, 1993651456)"
  by (rule normal_positive[OF next_66_3 next_66_4]) simp_all

lemma normal_66_3: "\<exists>z. 0 < z \<and> SeededRandom_normal 1993651456 = (Finite z, 1792335104)"
  by (rule normal_positive[OF next_66_5 next_66_6]) simp_all

lemma normal_66_4: "\<exists>z. 0 < z \<and> SeededRandom_normal 1792335104 = (Finite z, 1727350016)"
  by (rule normal_positive[OF next_66_7 next_66_8]) simp_all

lemma next_67_1: "SeededRandom_next 67 = 921089728"
  unfolding SeededRandom_next_def roundToDouble_def Let_def
  by (simp add: ulp.simps)

lemma next_67_2: "SeededRandom_next 921089728 = 1147830272"
  unfolding SeededRandom_next_def roundToDouble_def Let_def
  by (simp add: ulp.simps)

lemma next_67_3: "SeededRandom_next 1147830272 = 341356544"
  unfolding SeededRandom_next_def roundToDouble_def Let_def
  by (simp add: ulp.simps)

lemma next_67_4: "SeededRandom_next 341356544 = 1331896384"
  unfolding SeededRandom_next_def roundToDouble_def Let_def
  by (simp add: ulp.simps)

lemma next_67_5: "SeededRandom_next 1331896384 = 847801088"
  unfolding SeededRandom_next_def roundToDouble_def Let_def
  by (simp add: ulp.simps)

lemma next_67_6: "SeededRandom_next 847801088 = 1454358272"
  unfolding SeededRandom_next_def roundToDouble_def Let_def
  by (simp add: ulp.simps)

lemma next_67_7: "SeededRandom_next 1454358272 = 788955904"
  unfolding SeededRandom_next_def roundToDouble_def Let_def
  by (simp add: ulp.simps)

lemma next_67_8: "SeededRandom_next 788955904 = 1404040960"
  unfolding SeededRandom_next_def roundToDouble_def Let_def
  by (simp add: ulp.simps)

lemma normal_67_1: "\<exists>z. z < 0 \<and> SeededRandom_normal 67 = (Finite z, 1147830272)"
  by (rule normal_negative[OF next_67_1 next_67_2]) simp_all

lemma normal_67_2: "\<exists>z. z < 0 \<and> SeededRandom_normal 1147830272 = (Finite z, 1331896384)"
  by (rule normal_negative[OF next_67_3 next_67_4]) simp_all

lemma normal_67_3: "\<exists>z. z < 0 \<and> SeededRandom_normal 1331896384 = (Finite z, 1454358272)"
  by (rule normal_negative[OF next_67_5 next_67_6]) simp_all

lemma normal_67_4: "\<exists>z. z < 0 \<and> SeededRandom_normal 1454358272 = (Finite z, 1404040960)"
  by (rule normal_negative[OF next_67_7 next_67_8]) simp_all

text \<open>One year of a path on finite numbers, and the two years of the example household.\<close>

lemma draw_two_finite:
  assumes "SeededRandom_normal s = (Finite z1, s1)" "SeededRandom_normal s1 = (Finite z2, s2)"
  shows "drawPortfolioReturn [(w1, Some p1), (w2, Some p2)] (Finite 0) s
         = Inr (Finite ((nominalReturn_mean p1 / 100 + z1 * (nominalReturn_volatility p1 / 100)) * w1
                        + (nominalReturn_mean p2 / 100 + z2 * (nominalReturn_volatility p2 / 100)) * w2),
                s2)"
  using assms by (simp add: Let_def)

lemma simulatePortfolio_finite_last:
  assumes "drawPortfolioReturn assetParams (Finite 0) s = Inr (Finite r, s')"
    and "real yr < lifeExpectancy inputs - currentAge inputs"
    and "\<not> real (Suc yr) < lifeExpectancy inputs - currentAge inputs"
  shows "simulatePortfolio inputs assetParams infl ig eg yr (Finite p) s
         = Inr [Finite (max 0 (p + p * r
                  + netCashflow (projectYear inputs infl ig eg 0 yr 0)))]"
proof -
  have e: "simulatePortfolio inputs assetParams infl ig eg (Suc yr) v s' = Inr []" for v
    using assms(3) by (subst simulatePortfolio.simps) simp
  show ?thesis
    using assms(1,2) e
    by (subst simulatePortfolio.simps) (auto simp add: Let_def max_def)
qed

lemma simulatePortfolio_finite_step:
  assumes "drawPortfolioReturn assetParams (Finite 0) s = Inr (Finite r, s')"
    and "real yr < lifeExpectancy inputs - currentAge inputs"
    and "\<not> currentAge inputs + real yr \<ge> retirementAge inputs"
    and "simulatePortfolio inputs assetParams infl ig eg (Suc yr)
           (Finite (max 0 (p + p * r + netCashflow (projectYear inputs infl ig eg 0 yr 0)))) s'
         = Inr rest"
  shows "simulatePortfolio inputs assetParams infl ig eg yr (Finite p) s
         = Inr (Finite (max 0 (p + p * r
                  + netCashflow (projectYear inputs infl ig eg 0 yr 0))) # rest)"
  using assms
  by (subst simulatePortfolio.simps) (auto simp add: Let_def max_def)

lemma example_assetParams:
  "map (\<lambda>(assetId, weight). (weight / 100, assetClasses INDIA_2024_Q4 assetId))
       (assetAllocation exampleInputs)
   = [(7 / 10, Some \<lparr>nominalReturn_mean = 12, nominalReturn_volatility = 18, tradingCost = 10\<rparr>),
      (3 / 10, Some \<lparr>nominalReturn_mean = 72 / 10, nominalReturn_volatility = 45 / 10, tradingCost = 5\<rparr>)]"
  by (simp add: exampleInputs_def INDIA_2024_Q4_def)

lemma example_cashflows:
  "netCashflow (projectYear exampleInputs (6 / 100) (7 / 100) (6 / 100) 0 0 0) = 300000"
  "netCashflow (projectYear exampleInputs (6 / 100) (7 / 100) (6 / 100) 0 (Suc 0) 0) = - 636000"
  by (simp_all add: projectYear_def exampleInputs_def Let_def)

lemma example_rates:
  "inflation_mean INDIA_2024_Q4 / 100 = 6 / 100"
  "orDefault (investmentGrowthRate exampleInputs) (6 / 100 + 1 / 100) = 7 / 100"
  "orDefault (expenseGrowthRate exampleInputs) (6 / 100) = 6 / 100"
  "currentSavings exampleInputs = 1000000"
  by (simp_all add: INDIA_2024_Q4_def exampleInputs_def orDefault_def)

lemma example_years:
  "real 0 < lifeExpectancy exampleInputs - currentAge exampleInputs"
  "real (Suc 0) < lifeExpectancy exampleInputs - currentAge exampleInputs"
  "\<not> real (Suc (Suc 0)) < lifeExpectancy exampleInputs - currentAge exampleInputs"
  "\<not> currentAge exampleInputs + real 0 \<ge> retirementAge exampleInputs"
  by (simp_all add: exampleInputs_def)

lemma example_path:
  assumes n1: "SeededRandom_normal s = (Finite z1, sa)"
    and n2: "SeededRandom_normal sa = (Finite z2, sb)"
    and n3: "SeededRandom_normal sb = (Finite z3, sc)"
    and n4: "SeededRandom_normal sc = (Finite z4, sd)"
  shows "simulatedPortfolioValues exampleInputs INDIA_2024_Q4 s
         = Inr [Finite (max 0 (1000000 + 1000000 * (1056 / 10000 + 126 / 1000 * z1 + 135 / 10000 * z2)
                                + 300000)),
                Finite (max 0 (max 0 (1000000 + 1000000 * (1056 / 10000 + 126 / 1000 * z1 + 135 / 10000 * z2)
                                       + 300000)
                               * (1 + (1056 / 10000 + 126 / 1000 * z3 + 135 / 10000 * z4))
                               - 636000))]"
proof -
  let ?ap = "[(7 / 10, Some \<lparr>nominalReturn_mean = 12, nominalReturn_volatility = 18, tradingCost = 10\<rparr>),
      (3 / 10, Some \<lparr>nominalReturn_mean = 72 / 10, nominalReturn_volatility = 45 / 10, tradingCost = 5\<rparr>)]"
  let ?r0 = "1056 / 10000 + 126 / 1000 * z1 + 135 / 10000 * z2"
  let ?r1 = "1056 / 10000 + 126 / 1000 * z3 + 135 / 10000 * z4"
  let ?p1 = "max 0 (1000000 + 1000000 * ?r0 + 300000)"
  have d0: "drawPortfolioReturn ?ap (Finite 0) s = Inr (Finite ?r0, sb)"
    unfolding draw_two_finite[OF n1 n2] by (simp add: algebra_simps)
  have d1: "drawPortfolioReturn ?ap (Finite 0) sb = Inr (Finite ?r1, sd)"
    unfolding draw_two_finite[OF n3 n4] by (simp add: algebra_simps)
  have l: "simulatePortfolio exampleInputs ?ap (6 / 100) (7 / 100) (6 / 100) (Suc 0) (Finite ?p1) sb
           = Inr [Finite (max 0 (?p1 + ?p1 * ?r1 + - 636000))]"
    using simulatePortfolio_finite_last[OF d1 example_years(2,3), of "6 / 100" "7 / 100" "6 / 100" ?p1]
    unfolding example_cashflows .
  have f: "simulatePortfolio exampleInputs ?ap (6 / 100) (7 / 100) (6 / 100) 0 (Finite 1000000) s
           = Inr [Finite ?p1, Finite (max 0 (?p1 + ?p1 * ?r1 + - 636000))]"
    using simulatePortfolio_finite_step[OF d0 example_years(1,4), of "6 / 100" "7 / 100" "6 / 100" 1000000,
            unfolded example_cashflows, OF l] .
  have e: "?p1 + ?p1 * ?r1 + - 636000 = ?p1 * (1 + ?r1) - 636000" by (simp add: algebra_simps)
  show ?thesis
    unfolding simulatedPortfolioValues_def Let_def example_assetParams example_rates
    using f unfolding e .
qed

lemma positive_draws_above:
  assumes "0 < z1" "0 < z2" "0 < z3" "0 < z4"
  shows "91803136 / 100 < max 0 (max 0 (1000000 + 1000000 * (1056 / 10000 + 126 / 1000 * z1 + 135 / 10000 * z2)
                                       + 300000)
                               * (1 + (1056 / 10000 + 126 / 1000 * z3 + 135 / 10000 * z4))
                               - 636000 :: real)"
proof -
  let ?r0 = "1056 / 10000 + 126 / 1000 * z1 + 135 / 10000 * z2"
  let ?r1 = "1056 / 10000 + 126 / 1000 * z3 + 135 / 10000 * z4"
  let ?p1 = "max 0 (1000000 + 1000000 * ?r0 + 300000)"
  have r0: "1056 / 10000 < ?r0" using assms(1,2) by simp
  have r1: "1056 / 10000 < ?r1" using assms(3,4) by simp
  have "1000000 * (1056 / 10000) < 1000000 * ?r0" using r0 by (intro mult_strict_left_mono) simp_all
  then have p1: "1405600 < ?p1" by simp
  have "1405600 * (1 + 1056 / 10000) < ?p1 * (1 + ?r1)"
    using p1 r1 by (intro mult_strict_mono) simp_all
  then have "91803136 / 100 < ?p1 * (1 + ?r1) - 636000" by simp
  then show ?thesis by simp
qed

lemma negative_draws_below:
  assumes "z1 < 0" "z2 < 0" "z3 < 0" "z4 < 0"
  shows "max 0 (max 0 (1000000 + 1000000 * (1056 / 10000 + 126 / 1000 * z1 + 135 / 10000 * z2)
                                       + 300000)
                               * (1 + (1056 / 10000 + 126 / 1000 * z3 + 135 / 10000 * z4))
                               - 636000 :: real) < 91803136 / 100"
proof -
  let ?r0 = "1056 / 10000 + 126 / 1000 * z1 + 135 / 10000 * z2"
  let ?r1 = "1056 / 10000 + 126 / 1000 * z3 + 135 / 10000 * z4"
  let ?p1 = "max 0 (1000000 + 1000000 * ?r0 + 300000)"
  have r0: "?r0 < 1056 / 10000" using assms(1,2) by simp
  have r1: "?r1 < 1056 / 10000" using assms(3,4) by simp
  have "1000000 * ?r0 < 1000000 * (1056 / 10000)" using r0 by (intro mult_strict_left_mono) simp_all
  then have p1: "?p1 < 1405600" by simp
  have p0: "0 \<le> ?p1" by simp
  define x where "x = ?p1 * (1 + ?r1)"
  have "?p1 * (1 + ?r1) < 1405600 * (1 + 1056 / 10000)"
  proof (cases "0 \<le> 1 + ?r1")
    case True
    have "?p1 * (1 + ?r1) \<le> 1405600 * (1 + ?r1)"
      using p1 True by (intro mult_right_mono) simp_all
    also have "\<dots> < 1405600 * (1 + 1056 / 10000)"
      using r1 by (intro mult_strict_left_mono) simp_all
    finally show ?thesis .
  next
    case False
    then have "?p1 * (1 + ?r1) \<le> 0" using p0 by (simp add: mult_nonneg_nonpos)
    then show ?thesis by simp
  qed
  then have "x < 155403136 / 100" unfolding x_def by simp
  then have "max 0 (x - 636000) < 91803136 / 100" unfolding max_def by auto
  then show ?thesis unfolding x_def .
qed

lemma simulateTerminalValues_length:
  "simulateTerminalValues inputs assumptions baseSeed sims = Inr tvs \<Longrightarrow> length tvs = length sims"
  by (induction sims arbitrary: tvs) (auto split: sum.splits)

lemma aggregateMedians_facts:
  assumes "aggregateMedians terminalValues = Inr res"
  shows "terminalValues \<noteq> []"
    and "ms_values res = terminalValues"
    and "js_percentile terminalValues 50 = Inr (ms_median res)"
    and "ms_medianOutcome res
           = sortBy (\<lambda>a b. js_sign (js_minus a b)) terminalValues ! (length terminalValues div 2)"
proof -
  from assms obtain med where
    ne: "terminalValues \<noteq> []"
    and p: "js_percentile terminalValues 50 = Inr med"
    and res: "res = \<lparr> ms_medianOutcome = sortBy (\<lambda>a b. js_sign (js_minus a b)) terminalValues
                                             ! nat \<lfloor>real (length terminalValues) * (50 / 100)\<rfloor>,
                      ms_median = med, ms_values = terminalValues \<rparr>"
    unfolding aggregateMedians_def Let_def
    by (auto split: sum.splits if_splits)
  show "terminalValues \<noteq> []" by (rule ne)
  show "ms_values res = terminalValues" using res by simp
  show "js_percentile terminalValues 50 = Inr (ms_median res)" using p res by simp
  show "ms_medianOutcome res
           = sortBy (\<lambda>a b. js_sign (js_minus a b)) terminalValues ! (length terminalValues div 2)"
    unfolding res half_index by simp
qed

text \<open>
  A run reports the medians of its terminal values, one for each of the \<open>N\<close> paths.
\<close>

lemma monteCarloMedians_aggregate:
  assumes "monteCarloMedians rawInputs assumptions numSims sd = Inr res"
  shows "length (ms_values res) = nat \<lceil>numSims\<rceil>"
    and "aggregateMedians (ms_values res) = Inr res"
proof -
  from assms obtain tvs where
    t: "simulateTerminalValues (sanitizeInputs rawInputs) assumptions
          (case sd of None \<Rightarrow> 42 | Some k \<Rightarrow> if k = 0 then 42 else k)
          [0 ..< nat \<lceil>numSims\<rceil>] = Inr tvs"
    and a: "aggregateMedians tvs = Inr res"
    unfolding monteCarloMedians_def Let_def
    by (auto split: sum.splits)
  have v: "ms_values res = tvs" by (rule aggregateMedians_facts(2)[OF a])
  show "length (ms_values res) = nat \<lceil>numSims\<rceil>"
    using simulateTerminalValues_length[OF t] v by simp
  show "aggregateMedians (ms_values res) = Inr res" using a v by simp
qed

text \<open>
  The example household at base seed 66, two paths. The four draws of the path seeded 66
  are positive and the four draws of the path seeded 67 negative, so the first path ends
  above and the second below 918 031.36, where the path of the expected returns ends.
\<close>

lemma terminalValueOf_two: "terminalValueOf [v, Finite y] = Finite y"
  by (simp add: terminalValueOf_def)

lemma terminal_66:
  "\<exists>a. 91803136 / 100 < a
      \<and> terminalValueOf (projr (simulatedPortfolioValues exampleInputs INDIA_2024_Q4 66)) = Finite a
      \<and> \<not> isl (simulatedPortfolioValues exampleInputs INDIA_2024_Q4 66)"
proof -
  from normal_66_1 obtain z1 where z1: "0 < z1" "SeededRandom_normal 66 = (Finite z1, 29877504)" by blast
  from normal_66_2 obtain z2 where z2: "0 < z2" "SeededRandom_normal 29877504 = (Finite z2, 1993651456)" by blast
  from normal_66_3 obtain z3 where z3: "0 < z3" "SeededRandom_normal 1993651456 = (Finite z3, 1792335104)" by blast
  from normal_66_4 obtain z4 where z4: "0 < z4" "SeededRandom_normal 1792335104 = (Finite z4, 1727350016)" by blast
  note p = example_path[OF z1(2) z2(2) z3(2) z4(2)]
  define a where "a = max 0 (max 0 (1000000 + 1000000 * (1056 / 10000 + 126 / 1000 * z1 + 135 / 10000 * z2)
                                       + 300000)
                               * (1 + (1056 / 10000 + 126 / 1000 * z3 + 135 / 10000 * z4))
                               - 636000)"
  have b: "91803136 / 100 < a"
    unfolding a_def by (rule positive_draws_above[OF z1(1) z2(1) z3(1) z4(1)])
  have t: "terminalValueOf (projr (simulatedPortfolioValues exampleInputs INDIA_2024_Q4 66)) = Finite a"
    unfolding p sum.sel terminalValueOf_two a_def ..
  have i: "\<not> isl (simulatedPortfolioValues exampleInputs INDIA_2024_Q4 66)"
    unfolding p by simp
  from b t i show ?thesis by (intro exI[of _ a] conjI)
qed

lemma terminal_67:
  "\<exists>b. 0 \<le> b \<and> b < 91803136 / 100
      \<and> terminalValueOf (projr (simulatedPortfolioValues exampleInputs INDIA_2024_Q4 67)) = Finite b
      \<and> \<not> isl (simulatedPortfolioValues exampleInputs INDIA_2024_Q4 67)"
proof -
  from normal_67_1 obtain z1 where z1: "z1 < 0" "SeededRandom_normal 67 = (Finite z1, 1147830272)" by blast
  from normal_67_2 obtain z2 where z2: "z2 < 0" "SeededRandom_normal 1147830272 = (Finite z2, 1331896384)" by blast
  from normal_67_3 obtain z3 where z3: "z3 < 0" "SeededRandom_normal 1331896384 = (Finite z3, 1454358272)" by blast
  from normal_67_4 obtain z4 where z4: "z4 < 0" "SeededRandom_normal 1454358272 = (Finite z4, 1404040960)" by blast
  note p = example_path[OF z1(2) z2(2) z3(2) z4(2)]
  define b where "b = max 0 (max 0 (1000000 + 1000000 * (1056 / 10000 + 126 / 1000 * z1 + 135 / 10000 * z2)
                                       + 300000)
                               * (1 + (1056 / 10000 + 126 / 1000 * z3 + 135 / 10000 * z4))
                               - 636000)"
  have b1: "b < 91803136 / 100"
    unfolding b_def by (rule negative_draws_below[OF z1(1) z2(1) z3(1) z4(1)])
  have b0: "0 \<le> b" unfolding b_def by (rule max.cobounded1)
  have t: "terminalValueOf (projr (simulatedPortfolioValues exampleInputs INDIA_2024_Q4 67)) = Finite b"
    unfolding p sum.sel terminalValueOf_two b_def ..
  have i: "\<not> isl (simulatedPortfolioValues exampleInputs INDIA_2024_Q4 67)"
    unfolding p by simp
  from b0 b1 t i show ?thesis by (intro exI[of _ b] conjI)
qed

lemma run_66:
  "\<exists>a b. 91803136 / 100 < a \<and> 0 \<le> b \<and> b < 91803136 / 100
     \<and> monteCarloMedians exampleInputs INDIA_2024_Q4 2 (Some 66)
         = Inr \<lparr> ms_medianOutcome = Finite a, ms_median = Finite ((a + b) / 2),
                 ms_values = [Finite a, Finite b] \<rparr>"
proof -
  from terminal_66 obtain a where a: "91803136 / 100 < a"
    and ta: "terminalValueOf (projr (simulatedPortfolioValues exampleInputs INDIA_2024_Q4 66)) = Finite a"
    and ia: "\<not> isl (simulatedPortfolioValues exampleInputs INDIA_2024_Q4 66)"
    by (elim exE conjE)
  from terminal_67 obtain b where b: "0 \<le> b" "b < 91803136 / 100"
    and tb: "terminalValueOf (projr (simulatedPortfolioValues exampleInputs INDIA_2024_Q4 67)) = Finite b"
    and ib: "\<not> isl (simulatedPortfolioValues exampleInputs INDIA_2024_Q4 67)"
    by (elim exE conjE)
  from ia obtain pa where pa: "simulatedPortfolioValues exampleInputs INDIA_2024_Q4 66 = Inr pa"
    by (cases "simulatedPortfolioValues exampleInputs INDIA_2024_Q4 66") auto
  from ib obtain pb where pb: "simulatedPortfolioValues exampleInputs INDIA_2024_Q4 67 = Inr pb"
    by (cases "simulatedPortfolioValues exampleInputs INDIA_2024_Q4 67") auto
  note ta = ta[unfolded pa sum.sel] and tb = tb[unfolded pb sum.sel]
  have u: "[0 ..< nat \<lceil>2 :: real\<rceil>] = [0, Suc 0]" by (simp add: numeral_2_eq_2)
  have t: "simulateTerminalValues exampleInputs INDIA_2024_Q4 66 [0, Suc 0] = Inr [Finite a, Finite b]"
    by (simp add: pa pb ta tb)
  have ab: "b < a" using a b by simp
  have s: "sort [a, b] = [b, a]" using ab by simp
  have srt: "sortBy (\<lambda>a b. js_sign (js_minus a b)) [Finite a, Finite b] = [Finite b, Finite a]"
    using sortBy_Finite[of "[a, b]"] s by simp
  have "median [a, b] = (a + b) / 2"
    using median_even[of "[a, b]"] s by simp
  then have med: "js_percentile [Finite a, Finite b] 50 = Inr (Finite ((a + b) / 2))"
    using js_percentile_finite[of "[a, b]" 50] percentile_50_median[of "[a, b]"] by simp
  have i: "nat \<lfloor>real (length [Finite a, Finite b]) * (50 / 100)\<rfloor> = Suc 0" by simp
  have bs: "(case Some (66 :: int) of None \<Rightarrow> 42 | Some k \<Rightarrow> if k = 0 then 42 else k) = 66"
    by simp
  have "monteCarloMedians exampleInputs INDIA_2024_Q4 2 (Some 66)
         = Inr \<lparr> ms_medianOutcome = Finite a, ms_median = Finite ((a + b) / 2),
                 ms_values = [Finite a, Finite b] \<rparr>"
    unfolding monteCarloMedians_def aggregateMedians_def Let_def bs
    by (simp only: example_validated u t med srt i sum.case) simp
  with a b show ?thesis by (intro exI[of _ a] exI[of _ b] conjI)
qed

text \<open>
  A path that ends at \<open>Infinity\<close>. At seed 2088216195 the example household's first
  return is \<open>Infinity\<close> and its second return positive: both portfolio values are
  \<open>Infinity\<close>. A run of that single path reports \<open>medianOutcome = Infinity\<close> and a
  distribution median of \<open>Infinity * 1 + Infinity * 0\<close>, which is \<open>NaN\<close>.
\<close>

lemma ln_lower: "0 < (u::real) \<Longrightarrow> 1 - 1 / u \<le> ln u"
proof -
  assume u: "0 < u"
  then have "ln (1 / u) \<le> 1 / u - 1" by (intro ln_le_minus_one) simp
  moreover have "ln (1 / u) = - ln u" using u by (simp add: ln_div)
  ultimately show ?thesis by simp
qed

lemma normal_at_least:
  assumes n1: "SeededRandom_next s = s1" and n2: "SeededRandom_next s1 = s2"
    and s1: "s1 < 2147483647" "2 * 2147483647 \<le> 3 * s1"
  shows "\<exists>z. - 1 \<le> z \<and> SeededRandom_normal s = (Finite z, s2)"
proof -
  let ?u1 = "real_of_int s1 / 2147483647"
  let ?u2 = "real_of_int s2 / 2147483647"
  have "real_of_int (2 * 2147483647) \<le> real_of_int (3 * s1)" using s1(2) by (simp only: of_int_le_iff)
  then have lo: "2 / 3 \<le> ?u1" by simp
  then have pos: "0 < ?u1" by linarith
  have hi: "?u1 < 1" using s1(1) by simp
  have "1 / ?u1 \<le> 1 / (2 / 3)" using lo by (intro divide_left_mono) simp_all
  then have "1 - 3 / 2 \<le> 1 - 1 / ?u1" by simp
  also have "\<dots> \<le> ln ?u1" by (rule ln_lower[OF pos])
  finally have l: "- 2 * ln ?u1 \<le> 1" by simp
  have l0: "0 \<le> - 2 * ln ?u1" using pos hi by simp
  have r1: "sqrt (- 2 * ln ?u1) \<le> 1" using l by simp
  have r0: "0 \<le> sqrt (- 2 * ln ?u1)" using l0 by simp
  have "\<bar>sqrt (- 2 * ln ?u1) * cos (2 * pi * ?u2)\<bar> \<le> 1 * 1"
    unfolding abs_mult using r0 r1 by (intro mult_mono) simp_all
  then have "- 1 \<le> sqrt (- 2 * ln ?u1) * cos (2 * pi * ?u2)" by linarith
  moreover have "SeededRandom_normal s = (Finite (sqrt (- 2 * ln ?u1) * cos (2 * pi * ?u2)), s2)"
    unfolding SeededRandom_normal_def Let_def n1 n2 using pos by simp
  ultimately show ?thesis by blast
qed

lemma next_654583808: "SeededRandom_next 654583808 = 1358247936"
  unfolding SeededRandom_next_def roundToDouble_def Let_def
  by (simp add: ulp.simps)

lemma next_1358247936: "SeededRandom_next 1358247936 = 2138638336"
  unfolding SeededRandom_next_def roundToDouble_def Let_def
  by (simp add: ulp.simps)

lemma next_2138638336: "SeededRandom_next 2138638336 = 1459132416"
  unfolding SeededRandom_next_def roundToDouble_def Let_def
  by (simp add: ulp.simps)

lemma next_1459132416: "SeededRandom_next 1459132416 = 1445521408"
  unfolding SeededRandom_next_def roundToDouble_def Let_def
  by (simp add: ulp.simps)

lemma normal_654583808: "\<exists>z. 0 < z \<and> SeededRandom_normal 654583808 = (Finite z, 2138638336)"
  by (rule normal_positive[OF next_654583808 next_1358247936]) simp_all

lemma normal_2138638336: "\<exists>z. - 1 \<le> z \<and> SeededRandom_normal 2138638336 = (Finite z, 1445521408)"
  by (rule normal_at_least[OF next_2138638336 next_1459132416]) simp_all

lemma simulatePortfolio_infinite_return_on_savings:
  assumes "drawPortfolioReturn assetParams (Finite 0) s = Inr (PosInfinity, s')"
    and "0 < p"
    and "real yr < lifeExpectancy inputs - currentAge inputs"
    and "simulatePortfolio inputs assetParams infl ig eg (Suc yr) PosInfinity s' = Inr rest"
  shows "simulatePortfolio inputs assetParams infl ig eg yr (Finite p) s = Inr (PosInfinity # rest)"
  using assms by (subst simulatePortfolio.simps) (simp add: Let_def)

lemma simulatePortfolio_infinite_last:
  assumes "drawPortfolioReturn assetParams (Finite 0) s = Inr (Finite r, s')"
    and "0 < r"
    and "real yr < lifeExpectancy inputs - currentAge inputs"
    and "\<not> real (Suc yr) < lifeExpectancy inputs - currentAge inputs"
  shows "simulatePortfolio inputs assetParams infl ig eg yr PosInfinity s = Inr [PosInfinity]"
proof -
  have e: "simulatePortfolio inputs assetParams infl ig eg (Suc yr) PosInfinity s' = Inr []"
    using assms(4) by (subst simulatePortfolio.simps) simp
  show ?thesis
    using assms(1,2,3) e by (subst simulatePortfolio.simps) (simp add: Let_def)
qed

lemma infinite_path:
  "simulatedPortfolioValues exampleInputs INDIA_2024_Q4 2088216195 = Inr [PosInfinity, PosInfinity]"
proof -
  let ?ap = "[(7 / 10, Some \<lparr>nominalReturn_mean = 12, nominalReturn_volatility = 18, tradingCost = 10\<rparr>),
      (3 / 10, Some \<lparr>nominalReturn_mean = 72 / 10, nominalReturn_volatility = 45 / 10, tradingCost = 5\<rparr>)]"
  obtain x where n2: "SeededRandom_normal 12345 = (Finite x, 654583808)"
    using normal_12345 by blast
  from normal_654583808 obtain z3 where z3: "0 < z3"
    "SeededRandom_normal 654583808 = (Finite z3, 2138638336)" by blast
  from normal_2138638336 obtain z4 where z4: "- 1 \<le> z4"
    "SeededRandom_normal 2138638336 = (Finite z4, 1445521408)" by blast
  let ?r1 = "1056 / 10000 + 126 / 1000 * z3 + 135 / 10000 * z4"
  have d0: "drawPortfolioReturn ?ap (Finite 0) 2088216195 = Inr (PosInfinity, 654583808)"
    by (simp add: normal_2088216195 n2 Let_def)
  have d1: "drawPortfolioReturn ?ap (Finite 0) 654583808 = Inr (Finite ?r1, 1445521408)"
    unfolding draw_two_finite[OF z3(2) z4(2)] by (simp add: algebra_simps)
  have r1: "0 < ?r1" using z3(1) z4(1) by simp
  note l = simulatePortfolio_infinite_last[OF d1 r1 example_years(2,3)]
  have p: "0 < (1000000 :: real)" by simp
  note f = simulatePortfolio_infinite_return_on_savings[OF d0 p example_years(1) l]
  show ?thesis
    unfolding simulatedPortfolioValues_def Let_def example_assetParams example_rates
    by (rule f)
qed

lemma infinite_path_medians:
  "monteCarloMedians exampleInputs INDIA_2024_Q4 1 (Some 2088216195)
     = Inr \<lparr> ms_medianOutcome = PosInfinity, ms_median = NaN, ms_values = [PosInfinity] \<rparr>"
proof -
  have bs: "(case Some (2088216195 :: int) of None \<Rightarrow> 42 | Some k \<Rightarrow> if k = 0 then 42 else k)
              = 2088216195" by simp
  have u: "[0 ..< nat \<lceil>1 :: real\<rceil>] = [0]" by simp
  have t: "simulateTerminalValues exampleInputs INDIA_2024_Q4 2088216195 [0] = Inr [PosInfinity]"
    by (simp add: infinite_path terminalValueOf_def)
  have med: "js_percentile [PosInfinity] 50 = Inr NaN"
    by (simp add: js_percentile_def sortBy_def js_minus_def Let_def)
  have srt: "sortBy (\<lambda>a b. js_sign (js_minus a b)) [PosInfinity] = [PosInfinity]"
    by (simp add: sortBy_def)
  have i: "nat \<lfloor>real (length [PosInfinity]) * (50 / 100)\<rfloor> = 0" by simp
  show ?thesis
    unfolding monteCarloMedians_def aggregateMedians_def Let_def bs
    by (simp only: example_validated u t med srt i sum.case) simp
qed

text \<open>
  Claim C7 (amended). In every Monte Carlo result (\<open>N \<ge> 1\<close> simulations) whose terminal
  values are all finite, \<open>medianOutcome\<close> is the terminal value of the p50 path: the
  element at index \<open>\<lfloor>N / 2\<rfloor>\<close> of the terminal values in ascending order, which for an
  even \<open>N\<close> is the upper of the two middle values. \<open>terminalValueDistribution.median\<close>
  is the median of the terminal-value vector (for an even \<open>N\<close> the mean of the two
  middle values). For an odd \<open>N\<close> the three coincide. The terminal values are those of
  any \<open>N\<close> paths, whatever generator and seeds produced them.
\<close>

theorem median_outcome_is_upper_median:
  assumes r: "aggregateMedians terminalValues = Inr res"
    and fin: "list_all isFinite terminalValues"
  shows "0 < length terminalValues
       \<and> ms_values res = terminalValues
       \<and> ms_medianOutcome res
           = Finite (sort (map realOf terminalValues) ! (length terminalValues div 2))
       \<and> ms_median res = Finite (median (map realOf terminalValues))
       \<and> (odd (length terminalValues)
            \<longrightarrow> ms_medianOutcome res = Finite (median (map realOf terminalValues))
              \<and> ms_medianOutcome res = ms_median res)
       \<and> (even (length terminalValues)
            \<longrightarrow> median (map realOf terminalValues)
                = (sort (map realOf terminalValues) ! (length terminalValues div 2 - 1)
                   + sort (map realOf terminalValues) ! (length terminalValues div 2)) / 2)"
proof -
  let ?tv = "terminalValues"
  let ?xs = "map realOf ?tv"
  note f = aggregateMedians_facts[OF r]
  have tv: "?tv = map Finite ?xs" by (rule finite_values[OF fin])
  have ne: "?xs \<noteq> []" using f(1) by simp
  have lt: "length ?tv div 2 < length (sort ?xs)" using f(1) by (cases ?tv) auto
  have "sortBy (\<lambda>a b. js_sign (js_minus a b)) ?tv = map Finite (sort ?xs)"
    by (subst tv) (rule sortBy_Finite)
  then have mo: "ms_medianOutcome res = Finite (sort ?xs ! (length ?tv div 2))"
    using f(4) lt by simp
  have "js_percentile ?tv 50 = map_sum id Finite (percentile ?xs 50)"
    by (subst tv) (rule js_percentile_finite)
  then have md: "ms_median res = Finite (median ?xs)"
    using f(3) percentile_50_median[OF ne] by simp
  have o: "median ?xs = sort ?xs ! (length ?tv div 2)" if "odd (length ?tv)"
    using median_odd[of ?xs] that by simp
  have e: "median ?xs = (sort ?xs ! (length ?tv div 2 - 1) + sort ?xs ! (length ?tv div 2)) / 2"
    if "even (length ?tv)"
    using median_even[of ?xs] that ne by simp
  show ?thesis
  proof (intro conjI impI)
    show "0 < length ?tv" using f(1) by simp
    show "ms_values res = ?tv" by (rule f(2))
    show "ms_medianOutcome res = Finite (sort ?xs ! (length ?tv div 2))" by (rule mo)
    show "ms_median res = Finite (median ?xs)" by (rule md)
    show "ms_medianOutcome res = Finite (median ?xs)" if "odd (length ?tv)"
      using mo o[OF that] by simp
    show "ms_medianOutcome res = ms_median res" if "odd (length ?tv)"
      using mo md o[OF that] by simp
    show "median ?xs = (sort ?xs ! (length ?tv div 2 - 1) + sort ?xs ! (length ?tv div 2)) / 2"
      if "even (length ?tv)" using e[OF that] .
  qed
qed

text \<open>
  The theorem at the example household, base seed 66 and two paths: the run returns, both
  terminal values are finite, \<open>medianOutcome\<close> is the upper and the median the mean of
  the two.
\<close>

theorem median_outcome_is_upper_median_witness:
  "\<not> isl (monteCarloMedians exampleInputs INDIA_2024_Q4 2 (Some 66))
   \<and> aggregateMedians
         (ms_values (projr (monteCarloMedians exampleInputs INDIA_2024_Q4 2 (Some 66))))
       = monteCarloMedians exampleInputs INDIA_2024_Q4 2 (Some 66)
   \<and> list_all isFinite (ms_values (projr (monteCarloMedians exampleInputs INDIA_2024_Q4 2 (Some 66))))
   \<and> length (ms_values (projr (monteCarloMedians exampleInputs INDIA_2024_Q4 2 (Some 66)))) = 2
   \<and> ms_medianOutcome (projr (monteCarloMedians exampleInputs INDIA_2024_Q4 2 (Some 66)))
       = Finite (sort (map realOf
           (ms_values (projr (monteCarloMedians exampleInputs INDIA_2024_Q4 2 (Some 66))))) ! 1)
   \<and> ms_median (projr (monteCarloMedians exampleInputs INDIA_2024_Q4 2 (Some 66)))
       = Finite ((sort (map realOf
            (ms_values (projr (monteCarloMedians exampleInputs INDIA_2024_Q4 2 (Some 66))))) ! 0
          + sort (map realOf
            (ms_values (projr (monteCarloMedians exampleInputs INDIA_2024_Q4 2 (Some 66))))) ! 1) / 2)"
proof -
  from run_66 obtain a b where
    r: "monteCarloMedians exampleInputs INDIA_2024_Q4 2 (Some 66)
         = Inr \<lparr> ms_medianOutcome = Finite a, ms_median = Finite ((a + b) / 2),
                 ms_values = [Finite a, Finite b] \<rparr>"
    by (elim exE conjE)
  let ?res = "\<lparr> ms_medianOutcome = Finite a, ms_median = Finite ((a + b) / 2),
                 ms_values = [Finite a, Finite b] \<rparr>"
  have v: "ms_values ?res = [Finite a, Finite b]" by simp
  have ag: "aggregateMedians [Finite a, Finite b] = Inr ?res"
    using monteCarloMedians_aggregate(2)[OF r] unfolding v .
  have fin: "list_all isFinite [Finite a, Finite b]" by simp
  have ev: "even (length [Finite a, Finite b])" by simp
  note c = median_outcome_is_upper_median [OF ag fin]
  from c have mo: "ms_medianOutcome ?res
      = Finite (sort (map realOf [Finite a, Finite b]) ! (length [Finite a, Finite b] div 2))"
    by (elim conjE)
  from c have md: "ms_median ?res = Finite (median (map realOf [Finite a, Finite b]))"
    by (elim conjE)
  from c ev have e: "median (map realOf [Finite a, Finite b])
      = (sort (map realOf [Finite a, Finite b]) ! (length [Finite a, Finite b] div 2 - 1)
         + sort (map realOf [Finite a, Finite b]) ! (length [Finite a, Finite b] div 2)) / 2"
    by (elim conjE) (erule (1) impE)
  have h: "length [Finite a, Finite b] div 2 = 1" "length [Finite a, Finite b] div 2 - 1 = 0"
    by simp_all
  note mo' = mo[unfolded h] and md' = md[unfolded e h]
  show ?thesis
    unfolding r sum.sel v using ag fin mo' md' by (intro conjI) simp_all
qed

text \<open>
  Claim C7 as stated fails for an even number of simulations. The example household at
  base seed 66 with two paths has the terminal values of the paths seeded 66 and 67, the
  first above and the second below 918 031.36: \<open>medianOutcome\<close> is the first, the upper
  one, while \<open>terminalValueDistribution.median\<close> is their mean, which is smaller.
\<close>

theorem median_outcome_counterexample:
  "\<not> isl (monteCarloMedians exampleInputs INDIA_2024_Q4 2 (Some 66))
   \<and> list_all isFinite (ms_values (projr (monteCarloMedians exampleInputs INDIA_2024_Q4 2 (Some 66))))
   \<and> length (ms_values (projr (monteCarloMedians exampleInputs INDIA_2024_Q4 2 (Some 66)))) = 2
   \<and> ms_medianOutcome (projr (monteCarloMedians exampleInputs INDIA_2024_Q4 2 (Some 66)))
       = ms_values (projr (monteCarloMedians exampleInputs INDIA_2024_Q4 2 (Some 66))) ! 0
   \<and> 91803136 / 100
       < realOf (ms_values (projr (monteCarloMedians exampleInputs INDIA_2024_Q4 2 (Some 66))) ! 0)
   \<and> realOf (ms_values (projr (monteCarloMedians exampleInputs INDIA_2024_Q4 2 (Some 66))) ! 1)
       < 91803136 / 100
   \<and> ms_median (projr (monteCarloMedians exampleInputs INDIA_2024_Q4 2 (Some 66)))
       = Finite ((realOf (ms_values (projr (monteCarloMedians exampleInputs INDIA_2024_Q4 2 (Some 66))) ! 0)
                  + realOf (ms_values (projr (monteCarloMedians exampleInputs INDIA_2024_Q4 2 (Some 66))) ! 1))
                 / 2)
   \<and> realOf (ms_median (projr (monteCarloMedians exampleInputs INDIA_2024_Q4 2 (Some 66))))
       < realOf (ms_medianOutcome (projr (monteCarloMedians exampleInputs INDIA_2024_Q4 2 (Some 66))))
   \<and> ms_median (projr (monteCarloMedians exampleInputs INDIA_2024_Q4 2 (Some 66)))
       \<noteq> ms_medianOutcome (projr (monteCarloMedians exampleInputs INDIA_2024_Q4 2 (Some 66)))"
proof -
  from run_66 obtain a b where a: "91803136 / 100 < a" and b: "b < 91803136 / 100" and
    r: "monteCarloMedians exampleInputs INDIA_2024_Q4 2 (Some 66)
         = Inr \<lparr> ms_medianOutcome = Finite a, ms_median = Finite ((a + b) / 2),
                 ms_values = [Finite a, Finite b] \<rparr>"
    by (elim exE conjE)
  have ab: "(a + b) / 2 < a" using a b by simp
  then have ne: "(a + b) / 2 \<noteq> a" by simp
  show ?thesis
    unfolding r sum.sel using a b ab ne by (intro conjI) simp_all
qed


section \<open>Properties of the goal allocator\<close>

lemma Math_pow_gt_one:
  assumes "1 < x" "0 < y"
  shows "1 < Math_pow x y"
proof (cases "of_int \<lfloor>y\<rfloor> = y")
  case True
  then have "0 < \<lfloor>y\<rfloor>" using assms(2) by linarith
  then have "1 < x powi \<lfloor>y\<rfloor>" using assms(1) by (simp add: power_int_def one_less_power)
  with True show ?thesis by (simp add: Math_pow_def)
next
  case False
  then show ?thesis using assms by (simp add: Math_pow_def)
qed

lemma requiredSIP_monthly_nonneg:
  assumes "requiredSIP target (10 / 100) years monthly = Inr r"
  shows "0 \<le> r"
proof -
  from assms have t: "0 < target" and y: "0 < years"
    by (auto simp: requiredSIP_def split: if_splits)
  have "1 < Math_pow (1 + (10 / 100) / 12) (years * 12)"
    using y by (intro Math_pow_gt_one) simp_all
  then have d: "0 < ((Math_pow (1 + (10 / 100) / 12) (years * 12) - 1) / ((10 / 100) / 12))
                    * (1 + (10 / 100) / 12)"
    by simp
  from assms t y have "r = target / (((Math_pow (1 + (10 / 100) / 12) (years * 12) - 1) / ((10 / 100) / 12))
                    * (1 + (10 / 100) / 12))"
    by (simp add: requiredSIP_def Let_def)
  with t d show ?thesis by simp
qed

lemma requirementOf_nonneg:
  assumes "requirementOf assumptions currentYear goal = Inr r"
  shows "0 \<le> req_requiredSIP r"
  using assms requiredSIP_monthly_nonneg
  unfolding requirementOf_def Let_def
  by (auto split: if_splits sum.splits)

lemma requirementsOf_nonneg:
  "requirementsOf assumptions currentYear goals = Inr rs
   \<Longrightarrow> list_all (\<lambda>r. 0 \<le> req_requiredSIP r) rs"
  by (induction goals arbitrary: rs) (auto split: sum.splits dest: requirementOf_nonneg)

lemma set_insertBy [simp]: "set (insertBy cmp x ys) = insert x (set ys)"
  by (induction ys) auto

lemma set_sortBy [simp]: "set (sortBy cmp xs) = set xs"
  unfolding sortBy_def by (induction xs) auto

lemma allocateGreedy_zero:
  "allocateGreedy goals reqs 0 = Inr (allocs, confs, remaining)
   \<Longrightarrow> list_all (\<lambda>r. 0 \<le> req_requiredSIP r) reqs \<Longrightarrow> remaining = 0"
proof (induction reqs arbitrary: allocs confs remaining)
  case Nil
  then show ?case by simp
next
  case (Cons req reqs)
  from Cons.prems(2) have nn: "0 \<le> req_requiredSIP req"
    and rest: "list_all (\<lambda>r. 0 \<le> req_requiredSIP r) reqs" by simp_all
  show ?case
  proof (cases "req_requiredSIP req = 0")
    case True
    with Cons.prems(1) obtain allocs' confs' where
      "allocateGreedy goals reqs 0 = Inr (allocs', confs', remaining)"
      by (auto simp: Let_def split: option.splits sum.splits)
    from Cons.IH[OF this rest] show ?thesis .
  next
    case False
    with nn have "\<not> 0 \<ge> req_requiredSIP req" by simp
    with Cons.prems(1) obtain allocs' confs' where
      "allocateGreedy goals reqs 0 = Inr (allocs', confs', remaining)"
      by (auto simp: Let_def split: option.splits sum.splits)
    from Cons.IH[OF this rest] show ?thesis .
  qed
qed

lemma pow_121_120_12: "(121 / 120 :: real) ^ 12 = 9849732675807611094711841 / 8916100448256000000000000"
  by (simp add: power_divide)

lemma exampleGoal_zero_budget:
  "\<exists>res. allocateGoalBudget [exampleGoal] 0 INDIA_2024_Q4 2026 = Inr res"
  by (simp add: allocateGoalBudget_def requirementOf_def exampleGoal_def INDIA_2024_Q4_def
        orDefault_def Let_def requiredSIP_def sortBy_def js_divide_def pow_121_120_12)

text \<open>
  Claim C6 against the code. With a budget of 0 and at least one goal, every accepted
  call leaves \<open>remaining = 0\<close> and computes \<open>(0 - 0) / 0 * 100\<close>: the utilisation is
  \<open>NaN\<close>, not the 0 of the claim (only the empty goal list answers 0).
\<close>

theorem zero_budget_utilization_is_NaN:
  assumes "goals \<noteq> []"
    and "allocateGoalBudget goals 0 assumptions currentYear = Inr res"
  shows "budgetUtilization res = NaN \<and> totalMonthly res = 0 \<and> unallocated res = 0"
proof -
  from assms obtain requirements allocs confs remaining where
    rq: "requirementsOf assumptions currentYear goals = Inr requirements"
    and ag: "allocateGreedy goals (sortBy comparePriority requirements) 0
               = Inr (allocs, confs, remaining)"
    and bu: "budgetUtilization res = js_times (js_divide (0 - remaining) 0) 100"
    and tm: "totalMonthly res = 0 - remaining" and un: "unallocated res = remaining"
    unfolding allocateGoalBudget_def Let_def
    by (auto split: sum.splits)
  have "list_all (\<lambda>r. 0 \<le> req_requiredSIP r) (sortBy comparePriority requirements)"
    using requirementsOf_nonneg[OF rq] by (simp add: list_all_iff)
  from allocateGreedy_zero[OF ag this] have "remaining = 0" .
  with bu tm un show ?thesis by (simp add: js_divide_def)
qed

theorem zero_budget_utilization_is_NaN_witness:
  "[exampleGoal] \<noteq> []
   \<and> \<not> isl (allocateGoalBudget [exampleGoal] 0 INDIA_2024_Q4 2026)
   \<and> budgetUtilization (projr (allocateGoalBudget [exampleGoal] 0 INDIA_2024_Q4 2026)) = NaN"
proof -
  have g: "[exampleGoal] \<noteq> []" by simp
  from exampleGoal_zero_budget obtain res where
    r: "allocateGoalBudget [exampleGoal] 0 INDIA_2024_Q4 2026 = Inr res" by auto
  from zero_budget_utilization_is_NaN [OF g r] r show ?thesis by simp
qed

lemma exampleGoal_full_budget:
  "allocateGoalBudget [exampleGoal] 100000 INDIA_2024_Q4 2026 =
     Inr \<lparr>allocations =
            [\<lparr>goalId = ''3'',
                monthlySIP = 4725533237575680000000000000000 / 112969499533744942460132761,
                allocation_requiredSIP =
                  4725533237575680000000000000000 / 112969499533744942460132761,
                feasibility = on_track,
                projectedValue = 472553323757568000000000000000 / 933632227551611094711841,
                shortfall = 22271756844785880197275730000 / 933632227551611094711841\<rparr>],
          totalMonthly = 4725533237575680000000000000000 / 112969499533744942460132761,
          unallocated = 6571416715798814246013276100000 / 112969499533744942460132761,
          budgetUtilization =
            Finite (4725533237575680000000000000 / 112969499533744942460132761),
          conflicts = [],
          recommendations =
            [SurplusAvailable
               (6571416715798814246013276100000 / 112969499533744942460132761)]\<rparr>"
  by (simp add: allocateGoalBudget_def requirementOf_def exampleGoal_def INDIA_2024_Q4_def
        orDefault_def Let_def requiredSIP_def sortBy_def js_divide_def pow_121_120_12)

text \<open>
  Claim C5 against the code. The vacation goal (500000 in one year, no savings, inflated
  to 530000) with a budget of 100000 is granted its required SIP in full, and the
  annuity-due future value of that SIP at the monthly rate 0.10/12 over 12 periods is
  the target 530000; yet the allocator projects less than 506146 and reports a shortfall
  above 23854, because its projection grows the SIP by \<open>1.10 ^ years\<close> in place of
  \<open>(1 + 0.10/12) ^ (12 \<sdot> years)\<close>.
\<close>

theorem full_grant_projects_a_shortfall:
  "\<not> isl (allocateGoalBudget [exampleGoal] 100000 INDIA_2024_Q4 2026)
   \<and> map feasibility (allocations (projr (allocateGoalBudget [exampleGoal] 100000 INDIA_2024_Q4 2026)))
       = [on_track]
   \<and> map monthlySIP (allocations (projr (allocateGoalBudget [exampleGoal] 100000 INDIA_2024_Q4 2026)))
       = map allocation_requiredSIP
           (allocations (projr (allocateGoalBudget [exampleGoal] 100000 INDIA_2024_Q4 2026)))
   \<and> list_all (\<lambda>a. futureValueAnnuity (monthlySIP a) ((10 / 100) / 12) (12 * 1) due = Inr 530000
                   \<and> projectedValue a < 506146
                   \<and> 23854 < shortfall a)
        (allocations (projr (allocateGoalBudget [exampleGoal] 100000 INDIA_2024_Q4 2026)))"
  unfolding exampleGoal_full_budget
  by (simp add: futureValueAnnuity_def Let_def pow_121_120_12)


section \<open>Properties of the rebalancer\<close>















lemma test_result:
  "needsRebalancing (generateRebalancingTrades testHoldings testTarget INDIA_2024_Q4 defaultConfig)
   \<and> trades (generateRebalancingTrades testHoldings testTarget INDIA_2024_Q4 defaultConfig)
       = [\<lparr>asset = ''equity-nifty50'', action = SELL, amount = 150000,
            currentValue = 850000, targetValue = 700000\<rparr>,
          \<lparr>asset = ''debt-govt-10y'', action = BUY, amount = 150000,
            currentValue = 150000, targetValue = 300000\<rparr>]"
  by (simp add: generateRebalancingTrades_def testHoldings_def testTarget_def defaultConfig_def
        Let_def valueOr0_def tradeFor_def orDefault_def)







text \<open>
  A configured minimum trade amount of 0 is not used: \<open>config.minimumTradeAmount || 10000\<close>
  replaces it by 10 000. On holdings of 56 000 and 44 000 against a 50/50 target both
  trades of 6 000 are then suppressed and the drift of 6 points stays, where a minimum
  trade amount of 0 suppresses nothing.
\<close>

lemma zero_minimum_trade_is_replaced:
  "needsRebalancing
     (generateRebalancingTrades [(''equity-nifty50'', 56000), (''debt-govt-10y'', 44000)]
        [(''equity-nifty50'', 50), (''debt-govt-10y'', 50)] INDIA_2024_Q4
        \<lparr> driftThreshold = 5, minimumTradeAmount = Some 0, tradingCostBps = None \<rparr>)
   \<and> trades
     (generateRebalancingTrades [(''equity-nifty50'', 56000), (''debt-govt-10y'', 44000)]
        [(''equity-nifty50'', 50), (''debt-govt-10y'', 50)] INDIA_2024_Q4
        \<lparr> driftThreshold = 5, minimumTradeAmount = Some 0, tradingCostBps = None \<rparr>) = []
   \<and> calculateDrift [(''equity-nifty50'', 56000), (''debt-govt-10y'', 44000)]
        [(''equity-nifty50'', 50), (''debt-govt-10y'', 50)]
       = [(''equity-nifty50'', 6), (''debt-govt-10y'', - 6)]"
  by (simp add: generateRebalancingTrades_def calculateDrift_def Let_def valueOr0_def
        tradeFor_def orDefault_def)





end
